theory Spec2Isabelle
  imports Complex_Main
begin

section \<open>Numbers\<close>

text \<open>
  A JavaScript number is an IEEE 754 binary64 value. It is modelled by the real it
  denotes, and an arithmetic operation of the source by the exact operation followed by
  \<open>fl\<close>, the rounding to the nearest binary64 value with ties to the even significand.
  For a positive \<open>x\<close>, \<open>expo2 x\<close> is the exponent \<open>e\<close> with \<open>2 ^ e \<le> x < 2 ^ (e + 1)\<close>.
  The binary64 values of that range are the multiples of \<open>2 ^ (e - 52)\<close>; below
  \<open>2 ^ - 1022\<close> the subnormal numbers keep the spacing \<open>2 ^ - 1074\<close>. Comparisons,
  \<open>Math.min\<close>, \<open>Math.max\<close> and \<open>Math.floor\<close> are exact, and a decimal literal denotes
  \<open>fl\<close> of its decimal value. The infinities and NaN are not modelled: the numbers
  below are coordinates between 0 and 1, lengths in pixels and small counts, on which
  no operation overflows.
\<close>

function expo2 :: "real \<Rightarrow> int" where
  "expo2 x = (if x \<le> 0 then 0
              else if x < 1 then expo2 (2 * x) - 1
              else if 2 \<le> x then expo2 (x / 2) + 1
              else 0)"
  by pat_completeness auto
termination
proof (relation "measure (\<lambda>x. if x < 1 then nat \<lceil>- log 2 x\<rceil> else nat \<lfloor>log 2 x\<rfloor>)")
  show "wf (measure (\<lambda>x. if x < 1 then nat \<lceil>- log 2 x\<rceil> else nat \<lfloor>log 2 x\<rfloor>))"
    by simp
next
  fix x :: real
  assume a: "\<not> x \<le> 0" "x < 1"
  then have l: "log 2 (2 * x) = 1 + log 2 x" by (simp add: log_mult)
  have neg: "log 2 x < 0" using a by simp
  show "(2 * x, x) \<in> measure (\<lambda>x. if x < 1 then nat \<lceil>- log 2 x\<rceil> else nat \<lfloor>log 2 x\<rfloor>)"
  proof (cases "2 * x < 1")
    case True
    then have "log 2 (2 * x) < 0" using a by simp
    then show ?thesis using a l neg True by (simp add: nat_less_iff) linarith
  next
    case False
    then have b: "2 * x < 2" "1 \<le> 2 * x" using a by simp_all
    have "0 \<le> log 2 (2 * x)" using b by simp
    moreover have "log 2 (2 * x) < log 2 2" using b by (subst log_less_cancel_iff) simp_all
    then have "log 2 (2 * x) < 1" by simp
    ultimately have "\<lfloor>log 2 (2 * x)\<rfloor> = 0" by linarith
    then show ?thesis using a neg False by (simp add: nat_less_iff)
  qed
next
  fix x :: real
  assume a: "\<not> x \<le> 0" "\<not> x < 1" "2 \<le> x"
  then have l: "log 2 (x / 2) = log 2 x - 1" by (simp add: log_divide)
  have "log 2 2 \<le> log 2 x" using a by (subst log_le_cancel_iff) simp_all
  then have "1 \<le> log 2 x" by simp
  then show "(x / 2, x) \<in> measure (\<lambda>x. if x < 1 then nat \<lceil>- log 2 x\<rceil> else nat \<lfloor>log 2 x\<rfloor>)"
    using a l by (simp add: nat_less_iff)
qed

declare expo2.simps [simp del]

definition pow2 :: "int \<Rightarrow> real" where
  "pow2 e = (if 0 \<le> e then 2 ^ nat e else 1 / 2 ^ nat (- e))"

text \<open>The integer nearest to a real, the even one of the two when it lies half way.\<close>

definition rne :: "real \<Rightarrow> int" where
  "rne x = (let f = \<lfloor>x\<rfloor>; d = x - of_int f
            in if d < 1/2 then f else if 1/2 < d then f + 1 else if even f then f else f + 1)"

definition fl :: "real \<Rightarrow> real" where
  "fl x = (if x = 0 then 0
           else (let q = pow2 (max (expo2 \<bar>x\<bar>) (- 1022) - 52) in of_int (rne (x / q)) * q))"

section \<open>Data model (types.ts)\<close>

text \<open>
  The enum \<open>GameState\<close> of types.ts, in declaration order.
\<close>

datatype GameState =
    START
  | LOADING_OBJECTS
  | USER_PICKING
  | USER_CONFIRMING
  | USER_DESCRIBING
  | AI_GUESSING
  | AI_PICKING
  | USER_GUESSING
  | ROUND_OVER
  | ERROR

text \<open>
  A mask is \<open>number[][]\<close>, a list of points \<open>[x, y]\<close>. The field \<open>id\<close> of the interface
  is called \<open>obj_id\<close> here, \<open>id\<close> being the identity function of HOL. A JavaScript
  string is the list of its code units; the texts of this program need only code units
  below 256 (ASCII and the German umlauts).
\<close>

type_synonym point = "real \<times> real"

record GameObject =
  obj_id :: string
  label :: string
  mask :: "point list"
  color :: string

record Score =
  user :: int
  ai :: int

section \<open>Score calculation (App.tsx, calculatePoints)\<close>

definition calculatePoints :: "int \<Rightarrow> int" where
  "calculatePoints attempts =
     (if attempts = 1 then 10
      else if attempts = 2 then 8
      else if attempts = 3 then 6
      else if attempts = 4 then 4
      else if attempts \<ge> 5 then 2
      else 0)"

section \<open>Spatial model of the polygon viewer (InteractiveImageViewer.tsx)\<close>

text \<open>
  \<open>getPolygonArea\<close> is the area of the bounding box of a mask. The source starts its
  running minima and maxima at plus and minus \<open>Infinity\<close>; the loop is only reached
  for a mask of three or more points, whose first point replaces all four, so the
  folds below start from the first point. The two differences and their product are
  rounded.
\<close>

definition getPolygonArea :: "point list \<Rightarrow> real" where
  "getPolygonArea m =
     (if length m < 3 then 0
      else
        (let minX = fold (\<lambda>pt acc. min acc (fst pt)) m (fst (hd m));
             maxX = fold (\<lambda>pt acc. max acc (fst pt)) m (fst (hd m));
             minY = fold (\<lambda>pt acc. min acc (snd pt)) m (snd (hd m));
             maxY = fold (\<lambda>pt acc. max acc (snd pt)) m (snd (hd m))
         in fl (fl (maxX - minX) * fl (maxY - minY))))"

text \<open>
  The test of one loop iteration of \<open>isPointInPolygon\<close>, for the vertex
  \<open>(xi, yi) = polygon[i]\<close> and its predecessor \<open>(xj, yj) = polygon[j]\<close>:
  \<open>((yi > y) !== (yj > y)) && (x < (xj - xi) * (y - yi) / (yj - yi) + xi)\<close>, each of the
  three differences, the product, the quotient and the sum rounded, in the order in
  which JavaScript evaluates them. The conjunction of the source short-circuits, so its
  division is only evaluated for \<open>yi \<noteq> yj\<close>.
\<close>

definition edgeToggles :: "point \<Rightarrow> point \<Rightarrow> point \<Rightarrow> bool" where
  "edgeToggles pt vi vj =
     (let x = fst pt; y = snd pt; xi = fst vi; yi = snd vi; xj = fst vj; yj = snd vj
      in ((yi > y) \<noteq> (yj > y))
         \<and> (x < fl (fl (fl (fl (xj - xi) * fl (y - yi)) / fl (yj - yi)) + xi)))"

text \<open>
  The loop \<open>for (let i = 0, j = polygon.length - 1; i < polygon.length; j = i++)\<close>,
  with the flag \<open>inside\<close> as accumulator. Both indices are in range whenever they are
  read: \<open>i < polygon.length\<close> by the loop test, and \<open>j\<close> is the last index at first and
  the previous \<open>i\<close> afterwards.
\<close>

function isPointInPolygon_loop :: "point \<Rightarrow> point list \<Rightarrow> nat \<Rightarrow> nat \<Rightarrow> bool \<Rightarrow> bool" where
  "isPointInPolygon_loop pt polygon i j inside =
     (if i < length polygon
      then isPointInPolygon_loop pt polygon (i + 1) i
             (if edgeToggles pt (polygon ! i) (polygon ! j) then \<not> inside else inside)
      else inside)"
  by pat_completeness auto
termination
  by (relation "measure (\<lambda>(pt, polygon, i, j, inside). length polygon - i)") auto

declare isPointInPolygon_loop.simps [simp del]

definition isPointInPolygon :: "point \<Rightarrow> point list \<Rightarrow> bool" where
  "isPointInPolygon pt polygon =
     isPointInPolygon_loop pt polygon 0 (length polygon - 1) False"

definition getObjectsAtPosition :: "GameObject list \<Rightarrow> point \<Rightarrow> GameObject list" where
  "getObjectsAtPosition objs clickPos = filter (\<lambda>obj. isPointInPolygon clickPos (mask obj)) objs"

text \<open>
  The interior of a triangle in the geometric sense, in exact arithmetic: the point lies
  strictly on the same side of the three directed edges. \<open>orient u v w\<close> is twice the
  signed area of the triangle \<open>u\<close>, \<open>v\<close>, \<open>w\<close>.
\<close>

definition orient :: "point \<Rightarrow> point \<Rightarrow> point \<Rightarrow> real" where
  "orient u v w = (fst v - fst u) * (snd w - snd u) - (snd v - snd u) * (fst w - fst u)"

definition strictly_inside_triangle :: "point \<Rightarrow> point \<Rightarrow> point \<Rightarrow> point \<Rightarrow> bool" where
  "strictly_inside_triangle pt a b c =
     ((orient a b pt > 0 \<and> orient b c pt > 0 \<and> orient c a pt > 0)
      \<or> (orient a b pt < 0 \<and> orient b c pt < 0 \<and> orient c a pt < 0))"

text \<open>
  The loop of \<open>isPointInPolygon\<close> read as a walk along the vertices that remembers
  the previous vertex; used to reason about the loop by induction on the list.
\<close>

fun walk :: "point \<Rightarrow> point \<Rightarrow> point list \<Rightarrow> bool \<Rightarrow> bool" where
  "walk pt prev [] b = b"
| "walk pt prev (v # vs) b = walk pt v vs (if edgeToggles pt v prev then \<not> b else b)"

text \<open>
  Concrete inputs: a small square mask \<open>objA\<close> inside a large one \<open>objB\<close>, a
  third square \<open>objC\<close> apart from both, and a triangle; their coordinates are the
  literals 0.4, 0.6, 0.2, 0.8 and 0.1.
\<close>

definition objA :: GameObject where
  "objA = \<lparr>obj_id = ''obj-1'', label = ''Ball'',
            mask = [(fl (4/10), fl (4/10)), (fl (6/10), fl (4/10)),
                    (fl (6/10), fl (6/10)), (fl (4/10), fl (6/10))], color = ''red''\<rparr>"

definition objB :: GameObject where
  "objB = \<lparr>obj_id = ''obj-0'', label = ''Tisch'',
            mask = [(fl (2/10), fl (2/10)), (fl (8/10), fl (2/10)),
                    (fl (8/10), fl (8/10)), (fl (2/10), fl (8/10))], color = ''blue''\<rparr>"

definition objC :: GameObject where
  "objC = \<lparr>obj_id = ''obj-2'', label = ''Lampe'',
            mask = [(0, 0), (fl (1/10), 0), (fl (1/10), fl (1/10)), (0, fl (1/10))],
            color = ''yellow''\<rparr>"

definition objTri :: GameObject where
  "objTri = \<lparr>obj_id = ''obj-4'', label = ''Dach'',
              mask = [(0, 0), (1, 0), (1/2, 1)], color = ''grey''\<rparr>"

text \<open>
  Three masks on which rounding decides the test: the two-point mask
  \<open>[[0.51, 0.26], [0.84, 0.37]]\<close>, the thin triangle
  \<open>[[0.99, 0.08], [0.23, 0.59], [0.03, 0.8]]\<close> and the triangle
  \<open>[[0.57, 0.92], [0.52, 0.39], [0.1, 0.0]]\<close>; and the binary64 value next below 0.1,
  which JavaScript prints as 0.09999999999999999.
\<close>

definition objSegment :: GameObject where
  "objSegment = \<lparr>obj_id = ''obj-3'', label = ''Faden'',
                  mask = [(fl (51/100), fl (26/100)), (fl (84/100), fl (37/100))],
                  color = ''green''\<rparr>"

definition objSliver :: GameObject where
  "objSliver = \<lparr>obj_id = ''obj-5'', label = ''Stab'',
                 mask = [(fl (99/100), fl (8/100)), (fl (23/100), fl (59/100)),
                         (fl (3/100), fl (8/10))], color = ''white''\<rparr>"

definition objWedge :: GameObject where
  "objWedge = \<lparr>obj_id = ''obj-6'', label = ''Keil'',
                mask = [(fl (57/100), fl (92/100)), (fl (52/100), fl (39/100)), (fl (1/10), 0)],
                color = ''black''\<rparr>"

definition belowOneTenth :: real where
  "belowOneTenth = fl (9999999999999999/100000000000000000)"

section \<open>Strings of the program\<close>

text \<open>
  The operations of JavaScript strings that the game logic uses, on lists of code
  units below 256. In that range \<open>toLowerCase\<close> changes exactly the letters A to Z
  and the accented capitals 192 to 222 other than the multiplication sign 215, each by
  setting the bit of value 32; \<open>trim\<close> removes the white space characters 9 to 13, 32
  and 160 from both ends.
\<close>

abbreviation dq :: string where "dq \<equiv> [CHR 0x22]"
abbreviation ae :: string where "ae \<equiv> [CHR 0xE4]"
abbreviation ue :: string where "ue \<equiv> [CHR 0xFC]"

definition toLowerCase_unit :: "char \<Rightarrow> char" where
  "toLowerCase_unit c =
     (let n = (of_char c :: nat)
      in if (65 \<le> n \<and> n \<le> 90) \<or> (192 \<le> n \<and> n \<le> 222 \<and> n \<noteq> 215)
         then (case c of Char b0 b1 b2 b3 b4 b5 b6 b7 \<Rightarrow> Char b0 b1 b2 b3 b4 True b6 b7)
         else c)"

definition toLowerCase :: "string \<Rightarrow> string" where
  "toLowerCase s = map toLowerCase_unit s"

definition isWhiteSpace :: "char \<Rightarrow> bool" where
  "isWhiteSpace c = ((of_char c :: nat) \<in> {9, 10, 11, 12, 13, 32, 160})"

definition trim :: "string \<Rightarrow> string" where
  "trim s = rev (dropWhile isWhiteSpace (rev (dropWhile isWhiteSpace s)))"

definition startsWith :: "string \<Rightarrow> string \<Rightarrow> bool" where
  "startsWith s p = (take (length p) s = p)"

fun includes_str :: "string \<Rightarrow> string \<Rightarrow> bool" where
  "includes_str [] sub = (sub = [])"
| "includes_str (c # cs) sub = (startsWith (c # cs) sub \<or> includes_str cs sub)"

text \<open>Decimal text of an integer, as a template literal prints it.\<close>

fun natToString :: "nat \<Rightarrow> string" where
  "natToString n =
     (if n < 10 then [''0123456789'' ! n]
      else natToString (n div 10) @ [''0123456789'' ! (n mod 10)])"

declare natToString.simps [simp del]

definition numToString :: "int \<Rightarrow> string" where
  "numToString i = (if i < 0 then ''-'' @ natToString (nat (- i)) else natToString (nat i))"

text \<open>A value is truthy in a condition when it is neither \<open>null\<close> nor the empty string.\<close>

definition truthy :: "string option \<Rightarrow> bool" where
  "truthy v = (case v of None \<Rightarrow> False | Some t \<Rightarrow> t \<noteq> [])"

section \<open>The game component (App.tsx)\<close>

text \<open>
  The state variables of \<open>App\<close> that the game logic reads and writes. A handler is a
  function from the state at the render in which it was created to the state after
  its updates are applied. \<open>speak\<close> hands a text to speech synthesis and changes no
  state of the game, so it is left out, as are the variables of the image dialogue
  (\<open>showFrameSelector\<close>, \<open>pendingImageData\<close>, \<open>displayMode\<close>).

  React compares the dependencies of an effect by identity, and the array in
  \<open>aiGuesses\<close> is one of them. Every call of \<open>setAiGuesses\<close> in this program stores an
  array it has just built (a literal, or the result of \<open>map\<close>, \<open>slice\<close> or a spread);
  \<open>aiGuessesRef\<close> stands for the identity of the stored array, a number that each such
  call increases.
\<close>

record App =
  gameState :: GameState
  score :: Score
  image :: "string option"
  objects :: "GameObject list"
  message :: string
  userSelection :: "GameObject option"
  aiSelection :: "GameObject option"
  aiGuesses :: "GameObject list"
  aiGuessesRef :: nat
  attemptCount :: int
  isPlayerTurnToPick :: bool

definition INITIAL_SCORE :: Score where
  "INITIAL_SCORE = \<lparr>user = 0, ai = 0\<rparr>"

definition I_SPY_PREFIX :: string where
  "I_SPY_PREFIX = ''ich sehe was was du nicht siehst und das ist''"

text \<open>A settled promise: the value it resolved with, or a rejection.\<close>

datatype 'a settled = Resolved 'a | Rejected

definition msg_selected :: "string \<Rightarrow> string" where
  "msg_selected l = ''Du hast '' @ dq @ l @ dq @ '' ausgew'' @ ae @ ''hlt. Best'' @ ae @ ''tigen?''"

definition msg_correct :: "string \<Rightarrow> int \<Rightarrow> string" where
  "msg_correct l points =
     ''Richtig! Das war '' @ dq @ l @ dq @ ''. Du erh'' @ ae @ ''ltst '' @ numToString points
       @ '' Punkte.''"

definition msg_wrong :: "string \<Rightarrow> string" where
  "msg_wrong l = ''Das ist '' @ dq @ l @ dq @ ''. Leider falsch. Versuch es nochmal!''"

definition msg_not_guessed :: "string \<Rightarrow> string" where
  "msg_not_guessed l = ''Die KI konnte dein Objekt '' @ dq @ l @ dq @ '' nicht erraten.''"

definition msg_is_it :: "string \<Rightarrow> string" where
  "msg_is_it l = ''Ist es '' @ dq @ l @ dq @ ''?''"

definition msg_ai_success :: "int \<Rightarrow> int \<Rightarrow> string" where
  "msg_ai_success attempts points =
     ''Die KI hat es im '' @ numToString attempts @ ''. Versuch erraten und ''
       @ numToString points @ '' Punkte bekommen!''"

definition msg_record :: string where
  "msg_record = ''Nimm deinen Hinweis auf: '' @ dq
     @ ''Ich sehe was, was du nicht siehst und das ist...'' @ dq"

definition msg_your_turn :: string where
  "msg_your_turn = ''Du bist dran! W'' @ ae @ ''hle ein Objekt aus dem Bild aus.''"

definition msg_ai_picks :: string where
  "msg_ai_picks = ''Die KI w'' @ ae @ ''hlt ein Objekt aus...''"

definition msg_clue :: "string \<Rightarrow> string" where
  "msg_clue description = ''Ich sehe was, was du nicht siehst, und das ist '' @ description"

definition msg_no_description :: string where
  "msg_no_description = ''Die KI konnte keine Beschreibung erstellen. Versuche es erneut.''"

definition msg_no_guesses :: string where
  "msg_no_guesses = ''Die KI konnte keine Objekte erraten. Versuche es erneut.''"

definition msg_hint :: "string \<Rightarrow> string" where
  "msg_hint cleaned = ''Dein Hinweis: '' @ dq @ cleaned @ dq @ ''. KI '' @ ue @ ''berlegt...''"

definition handleMaskClick :: "string \<Rightarrow> App \<Rightarrow> App" where
  "handleMaskClick objectId s =
     (case find (\<lambda>obj. obj_id obj = objectId) (objects s) of
        None \<Rightarrow> s
      | Some clicked \<Rightarrow>
          if gameState s = USER_PICKING then
            s\<lparr>userSelection := Some clicked, gameState := USER_CONFIRMING,
              message := msg_selected (label clicked)\<rparr>
          else if gameState s = USER_CONFIRMING then
            s\<lparr>userSelection := Some clicked, message := msg_selected (label clicked)\<rparr>
          else if gameState s = USER_GUESSING then
            (case aiSelection s of
               None \<Rightarrow> s
             | Some sel \<Rightarrow>
                 if obj_id clicked = obj_id sel then
                   (let points = calculatePoints (attemptCount s + 1)
                    in s\<lparr>attemptCount := attemptCount s + 1,
                         score := (score s)\<lparr>user := user (score s) + points\<rparr>,
                         gameState := ROUND_OVER,
                         message := msg_correct (label sel) points\<rparr>)
                 else
                   s\<lparr>attemptCount := attemptCount s + 1, message := msg_wrong (label clicked)\<rparr>)
          else s)"

definition handleConfirmSelection :: "App \<Rightarrow> App" where
  "handleConfirmSelection s =
     (if userSelection s \<noteq> None then s\<lparr>gameState := USER_DESCRIBING, message := msg_record\<rparr>
      else s)"

definition handleReviseSelection :: "App \<Rightarrow> App" where
  "handleReviseSelection s =
     s\<lparr>userSelection := None, gameState := USER_PICKING, message := msg_your_turn\<rparr>"

definition handleStartRecording :: "App \<Rightarrow> App" where
  "handleStartRecording s = s\<lparr>message := msg_record\<rparr>"

definition startNewRound :: "App \<Rightarrow> App" where
  "startNewRound s =
     (let s' = s\<lparr>userSelection := None, aiSelection := None, aiGuesses := [],
                   aiGuessesRef := Suc (aiGuessesRef s), attemptCount := 0\<rparr>
      in if isPlayerTurnToPick s
         then s'\<lparr>gameState := USER_PICKING, message := msg_your_turn\<rparr>
         else s'\<lparr>gameState := AI_PICKING, message := msg_ai_picks\<rparr>)"

definition handleNextRound :: "App \<Rightarrow> App" where
  "handleNextRound s = s\<lparr>isPlayerTurnToPick := \<not> isPlayerTurnToPick s\<rparr>"

text \<open>The effect on \<open>[isPlayerTurnToPick, image]\<close>.\<close>

definition newRoundEffect :: "App \<Rightarrow> App" where
  "newRoundEffect s = (if truthy (image s) then startNewRound s else s)"

definition resetGame :: "App \<Rightarrow> App" where
  "resetGame s =
     s\<lparr>gameState := START, score := INITIAL_SCORE, image := None, objects := [],
       userSelection := None, aiSelection := None, aiGuesses := [],
       aiGuessesRef := Suc (aiGuessesRef s), isPlayerTurnToPick := True, message := []\<rparr>"

text \<open>
  \<open>handleSpeechResult\<close>: the synchronous part, and the two callbacks of the promise of
  \<open>guessObjectsFromDescription\<close>, which is requested when an image and a selection
  are present. The callbacks close over the selection of that moment, here \<open>sel\<close>. The
  service returns labels and masks; the callback adds ids and a colour.
\<close>

definition cleanTranscript :: "string \<Rightarrow> string" where
  "cleanTranscript transcript =
     (let cleaned = trim (toLowerCase transcript)
      in if startsWith cleaned I_SPY_PREFIX
         then trim (drop (length I_SPY_PREFIX) cleaned) else cleaned)"

definition handleSpeechResult :: "string \<Rightarrow> App \<Rightarrow> App" where
  "handleSpeechResult transcript s =
     s\<lparr>message := msg_hint (cleanTranscript transcript), gameState := AI_GUESSING\<rparr>"

definition mappedGuesses :: "(string \<times> point list) list \<Rightarrow> GameObject list" where
  "mappedGuesses guessed =
     map (\<lambda>(i, g). \<lparr>obj_id = ''guess-'' @ natToString i, label = fst g, mask = snd g,
                     color = ''#FFD70080''\<rparr>)
         (zip [0 ..< length guessed] guessed)"

definition guessesSettled :: "GameObject \<Rightarrow> (string \<times> point list) list settled \<Rightarrow> App \<Rightarrow> App" where
  "guessesSettled sel r s =
     (case r of
        Rejected \<Rightarrow> s\<lparr>gameState := ERROR, message := msg_no_guesses\<rparr>
      | Resolved guessed \<Rightarrow>
          if length guessed = 0 then
            s\<lparr>gameState := ROUND_OVER, message := msg_not_guessed (label sel),
              score := (score s)\<lparr>user := user (score s) + 10\<rparr>\<rparr>
          else s\<lparr>aiGuesses := mappedGuesses guessed, aiGuessesRef := Suc (aiGuessesRef s),
                 attemptCount := 1\<rparr>)"

text \<open>
  \<open>handleAiGuess\<close> is created in a render and reads \<open>aiGuesses\<close>, \<open>userSelection\<close>
  and \<open>objects\<close> of that render, the state \<open>r\<close>. What it passes to \<open>setAiGuesses\<close> and
  \<open>setScore\<close> are updater functions: React applies them later, to the state \<open>s\<close> that
  the updates queued before them have led to. The updater of the first branch reads
  \<open>prev[0].id\<close>; when the array it is applied to is empty, \<open>prev[0]\<close> is \<open>undefined\<close>
  and the read throws a TypeError.
\<close>

datatype js_error = TypeError

definition handleAiGuess :: "App \<Rightarrow> App \<Rightarrow> js_error + App" where
  "handleAiGuess r s =
     (case (aiGuesses r, userSelection r) of
        (currentGuess # _, Some sel) \<Rightarrow>
          (case find (\<lambda>obj. toLowerCase (label obj) = toLowerCase (label currentGuess)) (objects r) of
             Some originalObject \<Rightarrow>
               (case aiGuesses s of
                  [] \<Rightarrow> Inl TypeError
                | prev0 # rest \<Rightarrow>
                    Inr (s\<lparr>aiGuesses :=
                              originalObject\<lparr>obj_id := obj_id prev0, color := color prev0\<rparr> # rest,
                          aiGuessesRef := Suc (aiGuessesRef s),
                          message := msg_is_it (label originalObject)\<rparr>))
           | None \<Rightarrow>
               Inr (s\<lparr>aiGuesses := drop 1 (aiGuesses s), aiGuessesRef := Suc (aiGuessesRef s)\<rparr>))
      | ([], Some sel) \<Rightarrow>
          Inr (s\<lparr>gameState := ROUND_OVER, message := msg_not_guessed (label sel),
                score := (score s)\<lparr>user := user (score s) + 10\<rparr>\<rparr>)
      | (_, None) \<Rightarrow> Inr s)"

text \<open>
  The effect on \<open>[gameState, aiGuesses, handleAiGuess]\<close>, the only caller of
  \<open>handleAiGuess\<close>. React runs it after every render in which one of the three differs
  by identity from the render before; its guard reads the state \<open>r\<close> of that render.
\<close>

definition aiGuessingEffect :: "App \<Rightarrow> App \<Rightarrow> js_error + App" where
  "aiGuessingEffect r s =
     (if gameState r = AI_GUESSING \<and> length (aiGuesses r) > 0 then handleAiGuess r s else Inr s)"

definition handleYes :: "App \<Rightarrow> App" where
  "handleYes s =
     (let points = calculatePoints (attemptCount s)
      in s\<lparr>score := (score s)\<lparr>ai := ai (score s) + points\<rparr>,
           gameState := ROUND_OVER,
           message := msg_ai_success (attemptCount s) points\<rparr>)"

definition handleNo :: "App \<Rightarrow> App" where
  "handleNo s =
     s\<lparr>attemptCount := attemptCount s + 1, aiGuesses := drop 1 (aiGuesses s),
       aiGuessesRef := Suc (aiGuessesRef s)\<rparr>"

text \<open>The yes and no buttons of ControlsPanel.tsx are rendered under this condition.\<close>

definition yesNoShown :: "App \<Rightarrow> bool" where
  "yesNoShown s = (gameState s = AI_GUESSING \<and> startsWith (message s) ''Ist es'')"

subsection \<open>The AI picks (App.tsx effect, geminiService.ts)\<close>

text \<open>
  The repository holds two versions of services/geminiService.ts, and with them two
  functions \<open>generateDescriptionForObject\<close>; they carry the names of their files here.
  Both build the prompt from \<open>object.label\<close>, await the call of the model and return
  the trimmed text of the answer, or the phrase \<open>"konnte keine Beschreibung erstellen"\<close>
  when there is none. The argument \<open>obj\<close> is the selection the effect passes, which is
  \<open>undefined\<close> when the index is out of range: reading its label throws. \<open>call\<close> is how
  the rest of the body up to the awaited call of the model ends: with the answer, or
  with something thrown.

  The version of part_001 has no handler: whatever is thrown rejects its promise. In
  its answer, \<open>text\<close> is a property that may be absent.
\<close>

record GenerateContentResponse =
  text_of :: "string option"

definition FALLBACK_DESCRIPTION :: string where
  "FALLBACK_DESCRIPTION = ''konnte keine Beschreibung erstellen''"

definition generateDescriptionForObject_part_001 ::
    "GameObject option \<Rightarrow> GenerateContentResponse option settled \<Rightarrow> string settled" where
  "generateDescriptionForObject_part_001 obj call =
     (case obj of
        None \<Rightarrow> Rejected
      | Some selected \<Rightarrow>
          (case call of
             Rejected \<Rightarrow> Rejected
           | Resolved response \<Rightarrow>
               Resolved
                 (case response of
                    None \<Rightarrow> FALLBACK_DESCRIPTION
                  | Some r \<Rightarrow>
                      (case text_of r of
                         None \<Rightarrow> FALLBACK_DESCRIPTION
                       | Some t \<Rightarrow> if trim t = [] then FALLBACK_DESCRIPTION else trim t))))"

text \<open>
  The version of part_002 wraps its whole body in \<open>try\<close> and returns the phrase from
  the \<open>catch\<close> block, so its promise is never rejected. Its answer holds a \<open>response\<close>
  whose \<open>text\<close> is a method, which returns the text or throws.
\<close>

datatype 'a returned = Returned 'a | Thrown

record EnhancedGenerateContentResponse =
  text_method :: "string option returned"

record GenerateContentResult =
  response_of :: "EnhancedGenerateContentResponse option"

definition generateDescriptionForObject_part_002 ::
    "GameObject option \<Rightarrow> GenerateContentResult option settled \<Rightarrow> string settled" where
  "generateDescriptionForObject_part_002 obj call =
     Resolved
       (case obj of
          None \<Rightarrow> FALLBACK_DESCRIPTION
        | Some selected \<Rightarrow>
            (case call of
               Rejected \<Rightarrow> FALLBACK_DESCRIPTION
             | Resolved result \<Rightarrow>
                 (case result of
                    None \<Rightarrow> FALLBACK_DESCRIPTION
                  | Some res \<Rightarrow>
                      (case response_of res of
                         None \<Rightarrow> FALLBACK_DESCRIPTION
                       | Some r \<Rightarrow>
                           (case text_method r of
                              Thrown \<Rightarrow> FALLBACK_DESCRIPTION
                            | Returned None \<Rightarrow> FALLBACK_DESCRIPTION
                            | Returned (Some t) \<Rightarrow>
                                if trim t = [] then FALLBACK_DESCRIPTION else trim t)))))"

text \<open>The answers for which the version of part_001 returns the fallback phrase.\<close>

definition noUsableText :: "GenerateContentResponse option \<Rightarrow> bool" where
  "noUsableText response =
     (case response of None \<Rightarrow> True
      | Some r \<Rightarrow> (case text_of r of None \<Rightarrow> True | Some t \<Rightarrow> trim t = []))"

text \<open>
  The AI picking effect. \<open>random\<close> is the value of \<open>Math.random()\<close>, at least 0 and
  below 1; its product with the number of objects is rounded before \<open>Math.floor\<close>.
  \<open>generateDescription\<close> is the function of the service that the module imports,
  applied to the image already: it maps the selection to the way its promise settles.
  The callbacks of the promise do not look at the state they find.
\<close>

definition descriptionSettled :: "string settled \<Rightarrow> App \<Rightarrow> App" where
  "descriptionSettled r s =
     (case r of
        Resolved description \<Rightarrow>
          s\<lparr>message := msg_clue description, gameState := USER_GUESSING, attemptCount := 0\<rparr>
      | Rejected \<Rightarrow> s\<lparr>gameState := ERROR, message := msg_no_description\<rparr>)"

definition aiPickingEffect ::
    "real \<Rightarrow> (GameObject option \<Rightarrow> string settled) \<Rightarrow> App \<Rightarrow> App" where
  "aiPickingEffect random generateDescription s =
     (if gameState s = AI_PICKING \<and> length (objects s) > 0 \<and> truthy (image s) then
        (let randomIndex = nat \<lfloor>fl (random * real (length (objects s)))\<rfloor>;
             selection = (if randomIndex < length (objects s)
                          then Some (objects s ! randomIndex) else None)
         in descriptionSettled (generateDescription selection) (s\<lparr>aiSelection := selection\<rparr>))
      else s)"

subsection \<open>Speech errors (useSpeech.ts, App.tsx effect)\<close>

text \<open>
  The state of the hook of hooks/useSpeech.ts: \<open>isListening\<close>, \<open>error\<close>, and whether
  \<open>recognitionRef.current\<close> holds a recognition. \<open>startListening\<close> takes whether the
  browser has speech recognition; without it the hook shows an alert and returns.
  \<open>recognition.onerror\<close> stores the error code of the event as it is.
\<close>

record SpeechHook =
  isListening :: bool
  error :: "string option"
  recognitionRef :: bool

definition startListening :: "bool \<Rightarrow> SpeechHook \<Rightarrow> SpeechHook" where
  "startListening supported h =
     (if \<not> supported then h
      else if isListening h \<or> recognitionRef h then h
      else h\<lparr>error := None, recognitionRef := True\<rparr>)"

definition recognition_onstart :: "SpeechHook \<Rightarrow> SpeechHook" where
  "recognition_onstart h = h\<lparr>isListening := True\<rparr>"

definition recognition_onend :: "SpeechHook \<Rightarrow> SpeechHook" where
  "recognition_onend h = h\<lparr>isListening := False, recognitionRef := False\<rparr>"

definition recognition_onerror :: "string \<Rightarrow> SpeechHook \<Rightarrow> SpeechHook" where
  "recognition_onerror code h = h\<lparr>error := Some code, isListening := False, recognitionRef := False\<rparr>"

text \<open>
  The second hook of the repository stores a German text for the code; when the
  browser has no speech recognition it throws in \<open>startListening\<close> and stores the
  message of the caught error. Only the error it stores is modelled.
\<close>

definition recognition_onerror_de :: "string \<Rightarrow> string option" where
  "recognition_onerror_de code =
     Some (if code = ''network'' then
             ''Netzwerkfehler bei der Spracherkennung. Bitte '' @ ue
               @ ''berpr'' @ ue @ ''fen Sie Ihre Internetverbindung.''
           else if code = ''not-allowed'' then
             ''Mikrofon-Zugriff verweigert. Bitte erlauben Sie den Mikrofon-Zugriff.''
           else if code = ''no-speech'' then
             ''Keine Sprache erkannt. Bitte sprechen Sie deutlicher.''
           else if code = ''audio-capture'' then
             ''Mikrofon nicht verf'' @ ue @ ''gbar oder defekt.''
           else if code = ''service-not-allowed'' then
             ''Spracherkennungsdienst nicht verf'' @ ue @ ''gbar.''
           else ''Spracherkennungsfehler: '' @ code)"

definition startListening_unsupported_de :: "string option" where
  "startListening_unsupported_de = Some ''Speech recognition not supported in this browser''"

definition isCriticalSpeechError :: "string \<Rightarrow> bool" where
  "isCriticalSpeechError speechError =
     (includes_str speechError ''Mikrofon-Zugriff verweigert''
      \<or> includes_str speechError (''nicht unterst'' @ ue @ ''tzt'')
      \<or> includes_str speechError (''nicht verf'' @ ue @ ''gbar''))"

text \<open>The effect on \<open>[speechError]\<close>.\<close>

definition speechErrorEffect :: "string option \<Rightarrow> App \<Rightarrow> App" where
  "speechErrorEffect speechError s =
     (case speechError of
        None \<Rightarrow> s
      | Some e \<Rightarrow>
          if e = [] then s
          else if isCriticalSpeechError e then s\<lparr>message := e, gameState := ERROR\<rparr>
          else s\<lparr>message := e\<rparr>)"

section \<open>Clicks in the polygon viewer (InteractiveImageViewer.tsx)\<close>

text \<open>
  The click state of the viewer. \<open>handlePolygonClick\<close> takes the normalised click
  position that the source computes from the event, and returns the new state with
  the id it passes to \<open>onMaskClick\<close>, if it calls it. \<open>Array.prototype.sort\<close> is
  stable, as \<open>sort_key\<close> is; its comparator is the rounded difference of two areas,
  which has the sign of the exact difference.
\<close>

record Viewer =
  clickedObject :: "GameObject option"
  objectsAtLastClick :: "GameObject list"
  currentObjectIndex :: nat

definition initialViewer :: Viewer where
  "initialViewer = \<lparr>clickedObject = None, objectsAtLastClick = [], currentObjectIndex = 0\<rparr>"

definition isSamePosition :: "GameObject list \<Rightarrow> GameObject list \<Rightarrow> bool" where
  "isSamePosition objectsAtClick lastObjects =
     (length lastObjects > 0
      \<and> length objectsAtClick = length lastObjects
      \<and> list_all (\<lambda>obj. list_ex (\<lambda>lastObj. obj_id lastObj = obj_id obj) lastObjects)
           objectsAtClick)"

definition handlePolygonClick ::
    "bool \<Rightarrow> GameObject list \<Rightarrow> point \<Rightarrow> Viewer \<Rightarrow> Viewer \<times> string option" where
  "handlePolygonClick disabled objs clickPos v =
     (if disabled then (v, None)
      else if length (getObjectsAtPosition objs clickPos) = 0 then
        (v\<lparr>clickedObject := None, objectsAtLastClick := [], currentObjectIndex := 0\<rparr>, None)
      else
        (let objectsAtClick =
               sort_key (\<lambda>obj. getPolygonArea (mask obj)) (getObjectsAtPosition objs clickPos)
         in if isSamePosition objectsAtClick (objectsAtLastClick v) \<and> length objectsAtClick > 1
            then
              (let nextIndex = (currentObjectIndex v + 1) mod length objectsAtClick
               in (v\<lparr>currentObjectIndex := nextIndex,
                     clickedObject := Some (objectsAtClick ! nextIndex)\<rparr>,
                   Some (obj_id (objectsAtClick ! nextIndex))))
            else
              (v\<lparr>objectsAtLastClick := objectsAtClick, currentObjectIndex := 0,
                 clickedObject := Some (objectsAtClick ! 0)\<rparr>,
               Some (obj_id (objectsAtClick ! 0)))))"

text \<open>
  The effect on \<open>[selectedObjectId, objects]\<close>: React runs it after a render in which
  one of the two differs from the render before.
\<close>

definition selectionEffect :: "GameObject list \<Rightarrow> string option \<Rightarrow> Viewer \<Rightarrow> Viewer" where
  "selectionEffect objs selectedObjectId v =
     v\<lparr>clickedObject :=
         (case selectedObjectId of
            None \<Rightarrow> None
          | Some i \<Rightarrow> if i = [] then None else find (\<lambda>obj. obj_id obj = i) objs),
       objectsAtLastClick := [],
       currentObjectIndex := 0\<rparr>"

text \<open>
  What \<open>App\<close> passes to the viewer: \<open>selectedObjectId\<close> is
  \<open>userSelection?.id || aiSelection?.id\<close>, and the viewer is disabled outside the
  three phases in which the human clicks.
\<close>

definition selectedObjectId :: "App \<Rightarrow> string option" where
  "selectedObjectId s =
     (if truthy (map_option obj_id (userSelection s)) then map_option obj_id (userSelection s)
      else map_option obj_id (aiSelection s))"

definition viewerDisabled :: "App \<Rightarrow> bool" where
  "viewerDisabled s = (gameState s \<notin> {USER_PICKING, USER_GUESSING, USER_CONFIRMING})"

text \<open>
  One click on a polygon of the viewer inside \<open>App\<close>: the handler of the viewer, the
  call of \<open>handleMaskClick\<close> it makes, and then the effect unless the render that
  follows has the same \<open>selectedObjectId\<close> and the same objects as the one before.
\<close>

definition clickInApp :: "point \<Rightarrow> App \<times> Viewer \<Rightarrow> App \<times> Viewer" where
  "clickInApp clickPos sv =
     (let s = fst sv; v = snd sv;
          (v1, clicked) = handlePolygonClick (viewerDisabled s) (objects s) clickPos v;
          s1 = (case clicked of None \<Rightarrow> s | Some i \<Rightarrow> handleMaskClick i s);
          v2 = (if selectedObjectId s1 = selectedObjectId s \<and> objects s1 = objects s
                then v1 else selectionEffect (objects s1) (selectedObjectId s1) v1)
      in (s1, v2))"

section \<open>Hover in the segmentation viewers\<close>

text \<open>
  \<open>handleSetHoveredObject\<close> of SegmentationMaskViewer.tsx and \<open>handleSetHoveredBox\<close> of
  the photo display component read the client rectangles of the mask elements, sort
  them by area and take the first that contains the pointer. The fields \<open>top\<close>,
  \<open>left\<close>, \<open>width\<close> and \<open>height\<close> carry the suffix \<open>_px\<close> here. The comparator of
  the sort subtracts two areas, each a rounded product; the sign of a rounded
  difference of two binary64 values is that of the exact one, so the sort is by the
  rounded product. The right and the lower border are rounded sums.
\<close>

record Rect =
  top_px :: real
  left_px :: real
  width_px :: real
  height_px :: real

record MaskRect = Rect +
  objectId :: "string option"

record BoxRect = Rect +
  index :: nat

definition rectArea :: "'a Rect_scheme \<Rightarrow> real" where
  "rectArea r = fl (width_px r * height_px r)"

definition rectContains :: "real \<Rightarrow> real \<Rightarrow> 'a Rect_scheme \<Rightarrow> bool" where
  "rectContains clientX clientY r =
     (clientX > left_px r \<and> clientX < fl (left_px r + width_px r)
      \<and> clientY > top_px r \<and> clientY < fl (top_px r + height_px r))"

definition handleSetHoveredObject ::
    "bool \<Rightarrow> MaskRect list \<Rightarrow> real \<Rightarrow> real \<Rightarrow> string option \<Rightarrow> string option" where
  "handleSetHoveredObject disabled masks clientX clientY hoveredObjectId =
     (if disabled then hoveredObjectId
      else
        (case find (rectContains clientX clientY) (sort_key rectArea masks) of
           Some found \<Rightarrow> if truthy (objectId found) then objectId found else None
         | None \<Rightarrow> None))"

definition dimensionsAndIndex :: "Rect list \<Rightarrow> BoxRect list" where
  "dimensionsAndIndex boxes =
     map (\<lambda>(i, box). \<lparr>top_px = top_px box, left_px = left_px box,
                       width_px = width_px box, height_px = height_px box, index = i\<rparr>)
         (zip [0 ..< length boxes] boxes)"

definition handleSetHoveredBox :: "Rect list \<Rightarrow> real \<Rightarrow> real \<Rightarrow> nat option" where
  "handleSetHoveredBox boxes clientX clientY =
     (case find (rectContains clientX clientY) (sort_key rectArea (dimensionsAndIndex boxes)) of
        Some found \<Rightarrow> Some (index found)
      | None \<Rightarrow> None)"

text \<open>Two nested mask rectangles in client coordinates, used as concrete inputs.\<close>

definition bigRect :: MaskRect where
  "bigRect = \<lparr>top_px = 0, left_px = 0, width_px = 100, height_px = 100, objectId = Some ''obj-0''\<rparr>"

definition smallRect :: MaskRect where
  "smallRect = \<lparr>top_px = 20, left_px = 20, width_px = 20, height_px = 20, objectId = Some ''obj-1''\<rparr>"

section \<open>Concrete game states\<close>

text \<open>States of a game on the three objects, one for each phase looked at below.\<close>

definition pickingState :: App where
  "pickingState =
     \<lparr>gameState = USER_PICKING, score = INITIAL_SCORE, image = Some ''data:image/jpeg'',
      objects = [objB, objA, objC], message = msg_your_turn, userSelection = None,
      aiSelection = None, aiGuesses = [], aiGuessesRef = 0, attemptCount = 0,
      isPlayerTurnToPick = True\<rparr>"

text \<open>The human has clicked the ball and is asked to confirm.\<close>

definition confirmingA :: App where
  "confirmingA = pickingState\<lparr>userSelection := Some objA, gameState := USER_CONFIRMING,
                   message := msg_selected (label objA)\<rparr>"

definition describingState :: App where
  "describingState =
     pickingState\<lparr>gameState := USER_DESCRIBING, userSelection := Some objA, message := msg_record\<rparr>"

text \<open>The AI presents its only candidate, the table, for the human's ball.\<close>

definition aiGuessingState :: App where
  "aiGuessingState =
     pickingState\<lparr>gameState := AI_GUESSING, userSelection := Some objA,
       aiGuesses := [objB\<lparr>obj_id := ''guess-0'', color := ''#FFD70080''\<rparr>],
       attemptCount := 1, message := msg_is_it (label objB)\<rparr>"

definition aiPickingState :: App where
  "aiPickingState =
     pickingState\<lparr>gameState := AI_PICKING, message := msg_ai_picks, isPlayerTurnToPick := False\<rparr>"

definition guessingState :: App where
  "guessingState =
     aiPickingState\<lparr>gameState := USER_GUESSING, aiSelection := Some objC,
       message := msg_clue ''ist gelb und leuchtet''\<rparr>"

text \<open>The AI received two candidates; the first names nothing that was detected.\<close>

definition twoCandidatesState :: App where
  "twoCandidatesState =
     pickingState\<lparr>gameState := AI_GUESSING, userSelection := Some objA,
       aiGuesses := mappedGuesses [(''Stuhl'', mask objC), (''BALL'', mask objA)],
       attemptCount := 1, message := msg_hint ''rund''\<rparr>"

text \<open>
  A scene with three masks stacked at the point in the middle: the small square, the
  large square and the triangle; and the states that repeated clicks at that point
  lead through while the human picks.
\<close>

definition objD :: GameObject where
  "objD = objTri\<lparr>obj_id := ''obj-2''\<rparr>"

definition stackedState :: App where
  "stackedState = pickingState\<lparr>objects := [objB, objA, objD]\<rparr>"

definition stackedA :: "App \<times> Viewer" where
  "stackedA =
     (stackedState\<lparr>userSelection := Some objA, gameState := USER_CONFIRMING,
        message := msg_selected (label objA)\<rparr>,
      \<lparr>clickedObject = Some objA, objectsAtLastClick = [], currentObjectIndex = 0\<rparr>)"

definition stackedA2 :: "App \<times> Viewer" where
  "stackedA2 =
     (fst stackedA,
      \<lparr>clickedObject = Some objA, objectsAtLastClick = [objA, objB, objD], currentObjectIndex = 0\<rparr>)"

definition stackedB :: "App \<times> Viewer" where
  "stackedB =
     (stackedState\<lparr>userSelection := Some objB, gameState := USER_CONFIRMING,
        message := msg_selected (label objB)\<rparr>,
      \<lparr>clickedObject = Some objB, objectsAtLastClick = [], currentObjectIndex = 0\<rparr>)"

section \<open>Properties\<close>

subsection \<open>Points per attempt\<close>

text \<open>
  C5. For the attempt counts 1, 2, 3 and 4 \<open>calculatePoints\<close> returns 10, 8, 6 and 4,
  and for every attempt count of 5 or more it returns 2.
\<close>

theorem calculatePoints_table:
  "calculatePoints 1 = 10 \<and> calculatePoints 2 = 8 \<and> calculatePoints 3 = 6
   \<and> calculatePoints 4 = 4 \<and> (\<forall>n \<ge> 5. calculatePoints n = 2)"
  by (simp add: calculatePoints_def)

theorem calculatePoints_table_witness:
  "(5::int) \<le> 7 \<and> calculatePoints 7 = 2 \<and> calculatePoints 1 = 10"
  using calculatePoints_table by simp

subsection \<open>Evaluating binary64 arithmetic\<close>

lemmas fl_eval = fl_def expo2.simps pow2_def rne_def Let_def

lemma fl_0: "fl 0 = 0"
  by (simp add: fl_def)

lemma fl_literals:
  "fl (4/10) = 3602879701896397/9007199254740992"
  "fl (6/10) = 5404319552844595/9007199254740992"
  "fl (2/10) = 3602879701896397/18014398509481984"
  "fl (8/10) = 3602879701896397/4503599627370496"
  "fl (1/10) = 3602879701896397/36028797018963968"
  by (simp_all add: fl_eval)

lemma belowOneTenth_next: "belowOneTenth = fl (1/10) - 1 / 2 ^ 56"
  by (simp add: belowOneTenth_def fl_eval)

subsection \<open>Point-in-polygon test and hit test\<close>

lemma loop_walk:
  "i \<le> length P \<Longrightarrow> (i < length P \<longrightarrow> j < length P) \<Longrightarrow>
   isPointInPolygon_loop pt P i j b = walk pt (P ! j) (drop i P) b"
proof (induction pt P i j b rule: isPointInPolygon_loop.induct)
  case (1 pt polygon i j inside)
  show ?case
  proof (cases "i < length polygon")
    case True
    then have d: "drop i polygon = polygon ! i # drop (Suc i) polygon"
      by (simp add: Cons_nth_drop_Suc)
    from True 1 show ?thesis
      apply (subst isPointInPolygon_loop.simps)
      apply (simp add: d)
      done
  next
    case False
    with 1 show ?thesis
      by (subst isPointInPolygon_loop.simps) simp
  qed
qed

lemma isPointInPolygon_walk:
  "isPointInPolygon pt P = (P \<noteq> [] \<and> walk pt (last P) P False)"
proof (cases "P = []")
  case True
  then show ?thesis
    by (simp add: isPointInPolygon_def isPointInPolygon_loop.simps)
next
  case False
  then have "P ! (length P - 1) = last P"
    by (simp add: last_conv_nth)
  with False show ?thesis
    using loop_walk [of 0 P "length P - 1" pt False]
    by (simp add: isPointInPolygon_def)
qed

lemma walk_no_toggle:
  "\<forall>(v, u) \<in> set (zip vs (prev # vs)). \<not> edgeToggles pt v u \<Longrightarrow> walk pt prev vs b = b"
  by (induction vs arbitrary: prev b) auto

text \<open>
  What holds of the test in binary64 arithmetic for every mask: a mask of fewer than
  two points matches no point; a point below or above all vertices is not matched, the
  comparisons of the ordinates being exact; and on a rectangle with sides parallel to
  the axes, whose vertical edges have the difference 0 of their abscissae, the test is
  exact, closed at the lower and open at the upper sides.
\<close>

lemma fewer_than_two_never_match:
  assumes "length P < 2"
  shows "\<not> isPointInPolygon pt P"
proof -
  from assms consider "P = []" | a where "P = [a]"
    by (cases P rule: list.exhaust; cases "tl P") auto
  then show ?thesis
  proof cases
    case 1
    then show ?thesis by (simp add: isPointInPolygon_walk)
  next
    case 2
    then show ?thesis by (simp add: isPointInPolygon_walk edgeToggles_def)
  qed
qed

lemma above_or_below_never_match:
  assumes "(\<forall>v \<in> set P. snd pt < snd v) \<or> (\<forall>v \<in> set P. snd v \<le> snd pt)"
  shows "\<not> isPointInPolygon pt P"
proof (cases "P = []")
  case True
  then show ?thesis by (simp add: isPointInPolygon_walk)
next
  case False
  have mem: "\<And>v u. (v, u) \<in> set (zip P (last P # P)) \<Longrightarrow> v \<in> set P \<and> u \<in> set P"
  proof -
    fix v u assume "(v, u) \<in> set (zip P (last P # P))"
    then have "v \<in> set P" "u \<in> set (last P # P)"
      by (auto dest: set_zip_leftD set_zip_rightD)
    then show "v \<in> set P \<and> u \<in> set P" using False by auto
  qed
  from assms have "\<forall>(v, u) \<in> set (zip P (last P # P)). \<not> edgeToggles pt v u"
    using mem by (fastforce simp: edgeToggles_def Let_def)
  then have "walk pt (last P) P False = False" by (rule walk_no_toggle)
  then show ?thesis by (simp add: isPointInPolygon_walk)
qed

lemma rectangle_hit:
  assumes "fl x0 = x0" "fl x1 = x1" "x0 < x1" "y0 < y1"
  shows "isPointInPolygon (x, y) [(x0, y0), (x1, y0), (x1, y1), (x0, y1)]
       = (x0 \<le> x \<and> x < x1 \<and> y0 \<le> y \<and> y < y1)"
  using assms by (auto simp: isPointInPolygon_walk edgeToggles_def fl_0)

text \<open>The three masks on which rounding decides the test.\<close>

lemma segment_hit: "isPointInPolygon (fl (82/100), fl (109/300)) (mask objSegment)"
  by (simp add: objSegment_def isPointInPolygon_def isPointInPolygon_loop.simps edgeToggles_def
      fl_eval)

lemma sliver_missed: "\<not> isPointInPolygon (fl (95/100), fl (11/100)) (mask objSliver)"
  by (simp add: objSliver_def isPointInPolygon_def isPointInPolygon_loop.simps edgeToggles_def
      fl_eval)

lemma sliver_interior:
  "strictly_inside_triangle (fl (95/100), fl (11/100))
     (fl (99/100), fl (8/100)) (fl (23/100), fl (59/100)) (fl (3/100), fl (8/10))"
  by (simp add: strictly_inside_triangle_def orient_def fl_eval)

lemma wedge_hit: "isPointInPolygon (belowOneTenth, 0) (mask objWedge)"
  by (simp add: objWedge_def belowOneTenth_def isPointInPolygon_def isPointInPolygon_loop.simps
      edgeToggles_def fl_eval)

lemma wedge_left_of: "list_all (\<lambda>v. belowOneTenth < fst v) (mask objWedge)"
  by (simp add: objWedge_def belowOneTenth_def fl_eval)

lemma rounding_masks:
  "length (mask objSegment) = 2"
  "mask objSliver
     = [(fl (99/100), fl (8/100)), (fl (23/100), fl (59/100)), (fl (3/100), fl (8/10))]"
  by (simp_all add: objSegment_def objSliver_def)

text \<open>
  C6, evaluated where the code departs from it. The abscissa at which an edge meets the
  line of the point is computed with six rounded operations, and the hit test
  compares the point with the rounded value. So it matches the mask of two points
  \<open>[[0.51, 0.26], [0.84, 0.37]]\<close> at the point \<open>(0.82, 109 / 300)\<close>; it misses the point
  \<open>(0.95, 0.11)\<close>, which lies strictly inside the triangle
  \<open>[[0.99, 0.08], [0.23, 0.59], [0.03, 0.8]]\<close>; and it matches the triangle
  \<open>[[0.57, 0.92], [0.52, 0.39], [0.1, 0.0]]\<close> at the point \<open>(0.09999999999999999, 0)\<close>,
  which lies to the left of all its vertices and so strictly outside its bounding box.
\<close>

theorem hitTest_rounding_failures:
  "length (mask objSegment) < 3
   \<and> getObjectsAtPosition [objSegment] (fl (82/100), fl (109/300)) = [objSegment]
   \<and> mask objSliver
       = [(fl (99/100), fl (8/100)), (fl (23/100), fl (59/100)), (fl (3/100), fl (8/10))]
   \<and> strictly_inside_triangle (fl (95/100), fl (11/100))
       (fl (99/100), fl (8/100)) (fl (23/100), fl (59/100)) (fl (3/100), fl (8/10))
   \<and> getObjectsAtPosition [objSliver] (fl (95/100), fl (11/100)) = []
   \<and> list_all (\<lambda>v. belowOneTenth < fst v) (mask objWedge)
   \<and> getObjectsAtPosition [objWedge] (belowOneTenth, 0) = [objWedge]"
  using segment_hit sliver_missed sliver_interior wedge_hit wedge_left_of rounding_masks
  by (simp add: getObjectsAtPosition_def)

subsection \<open>Hover resolution\<close>

lemma find_sort_key_min:
  fixes f :: "'a \<Rightarrow> real"
  assumes "find P (sort_key f xs) = Some y"
  shows "y \<in> set xs \<and> P y \<and> (\<forall>x \<in> set xs. P x \<longrightarrow> f y \<le> f x)"
proof -
  let ?ys = "sort_key f xs"
  from assms obtain i where i: "i < length ?ys" "P (?ys ! i)" "y = ?ys ! i"
    and first: "\<forall>j < i. \<not> P (?ys ! j)"
    by (auto simp: find_Some_iff)
  have sorted: "sorted (map f ?ys)" by simp
  have "y \<in> set ?ys" unfolding i(3) using i(1) by (rule nth_mem)
  then have mem: "y \<in> set xs" by simp
  have "f y \<le> f x" if "x \<in> set xs" "P x" for x
  proof -
    from that have "x \<in> set ?ys" by simp
    then obtain k where k: "k < length ?ys" "x = ?ys ! k"
      by (metis in_set_conv_nth)
    with first that have "i \<le> k" by (meson not_le_imp_less)
    with sorted k have "map f ?ys ! i \<le> map f ?ys ! k"
      by (intro sorted_nth_mono) simp_all
    with i k show ?thesis by simp
  qed
  with mem i show ?thesis by blast
qed

lemma find_sort_key_None:
  "find P (sort_key f xs) = None \<longleftrightarrow> \<not> (\<exists>x \<in> set xs. P x)"
  by (auto simp: find_None_iff)

lemma hover_object_result:
  "(\<exists>found \<in> set masks. rectContains x y found
        \<and> (\<forall>m \<in> set masks. rectContains x y m \<longrightarrow> rectArea found \<le> rectArea m)
        \<and> handleSetHoveredObject False masks x y h
            = (if truthy (objectId found) then objectId found else None))
   \<or> ((\<forall>m \<in> set masks. \<not> rectContains x y m)
        \<and> handleSetHoveredObject False masks x y h = None)"
proof (cases "find (rectContains x y) (sort_key rectArea masks)")
  case None
  then show ?thesis
    using find_sort_key_None [of "rectContains x y" rectArea masks]
    by (simp add: handleSetHoveredObject_def)
next
  case (Some found)
  from find_sort_key_min [OF Some] Some show ?thesis
    by (auto simp: handleSetHoveredObject_def)
qed

lemma indexed_length: "length (dimensionsAndIndex boxes) = length boxes"
  by (simp add: dimensionsAndIndex_def)

lemma indexed_nth:
  "j < length boxes \<Longrightarrow>
   dimensionsAndIndex boxes ! j =
     \<lparr>top_px = top_px (boxes ! j), left_px = left_px (boxes ! j),
      width_px = width_px (boxes ! j), height_px = height_px (boxes ! j), index = j\<rparr>"
  by (simp add: dimensionsAndIndex_def)

lemma indexed_mem:
  "d \<in> set (dimensionsAndIndex boxes) \<longleftrightarrow> (\<exists>j < length boxes. d = dimensionsAndIndex boxes ! j)"
  using in_set_conv_nth [of d "dimensionsAndIndex boxes"] by (auto simp: indexed_length)

lemma indexed_contains:
  "j < length boxes \<Longrightarrow>
   rectContains x y (dimensionsAndIndex boxes ! j) = rectContains x y (boxes ! j)"
  by (simp add: indexed_nth rectContains_def)

lemma indexed_area:
  "j < length boxes \<Longrightarrow> rectArea (dimensionsAndIndex boxes ! j) = rectArea (boxes ! j)"
  by (simp add: indexed_nth rectArea_def)

lemma hover_box_result:
  "(\<exists>i < length boxes. rectContains x y (boxes ! i)
        \<and> (\<forall>j < length boxes. rectContains x y (boxes ! j) \<longrightarrow> rectArea (boxes ! i) \<le> rectArea (boxes ! j))
        \<and> handleSetHoveredBox boxes x y = Some i)
   \<or> ((\<forall>j < length boxes. \<not> rectContains x y (boxes ! j))
        \<and> handleSetHoveredBox boxes x y = None)"
proof (cases "find (rectContains x y) (sort_key rectArea (dimensionsAndIndex boxes))")
  case None
  then have no: "\<forall>d \<in> set (dimensionsAndIndex boxes). \<not> rectContains x y d"
    using find_sort_key_None [of "rectContains x y" rectArea "dimensionsAndIndex boxes"] by simp
  have "\<not> rectContains x y (boxes ! j)" if "j < length boxes" for j
  proof -
    from that have "dimensionsAndIndex boxes ! j \<in> set (dimensionsAndIndex boxes)"
      by (auto simp: indexed_mem)
    with no have "\<not> rectContains x y (dimensionsAndIndex boxes ! j)" by blast
    with that show ?thesis by (simp add: indexed_contains)
  qed
  with None show ?thesis
    by (simp add: handleSetHoveredBox_def)
next
  case (Some found)
  from find_sort_key_min [OF Some]
  have f: "found \<in> set (dimensionsAndIndex boxes)" "rectContains x y found"
    and m: "\<forall>d \<in> set (dimensionsAndIndex boxes). rectContains x y d \<longrightarrow> rectArea found \<le> rectArea d"
    by auto
  from f obtain i where i: "i < length boxes" "found = dimensionsAndIndex boxes ! i"
    by (auto simp: indexed_mem)
  have "rectContains x y (boxes ! i)"
    using f i by (simp add: indexed_contains)
  moreover have "rectArea (boxes ! i) \<le> rectArea (boxes ! j)"
    if "j < length boxes" "rectContains x y (boxes ! j)" for j
  proof -
    from that have "dimensionsAndIndex boxes ! j \<in> set (dimensionsAndIndex boxes)"
      "rectContains x y (dimensionsAndIndex boxes ! j)"
      by (auto simp: indexed_mem indexed_contains)
    with m have "rectArea found \<le> rectArea (dimensionsAndIndex boxes ! j)" by blast
    with i that show ?thesis by (simp add: indexed_area)
  qed
  moreover have "handleSetHoveredBox boxes x y = Some i"
    using Some i by (simp add: handleSetHoveredBox_def indexed_nth)
  ultimately show ?thesis using i by blast
qed

text \<open>
  C2, as stated: for a hover point inside the rectangles of several objects the hover
  resolution returns the largest-area match. It does not: with a small rectangle
  nested in a large one and the pointer inside both, the small one is returned.
\<close>

theorem hover_largest_counterexample:
  "rectContains 30 30 bigRect \<and> rectContains 30 30 smallRect
   \<and> rectArea smallRect < rectArea bigRect
   \<and> handleSetHoveredObject False [bigRect, smallRect] 30 30 None = objectId smallRect
   \<and> handleSetHoveredObject False [bigRect, smallRect] 30 30 None \<noteq> objectId bigRect
   \<and> handleSetHoveredBox [Rect.truncate bigRect, Rect.truncate smallRect] 30 30 = Some 1"
  by (simp add: handleSetHoveredObject_def handleSetHoveredBox_def dimensionsAndIndex_def
      bigRect_def smallRect_def rectContains_def rectArea_def truthy_def Rect.truncate_def
      fl_eval)

text \<open>
  C2, amended. For every hover point, the hover resolution picks a smallest-area
  rectangle among those that strictly contain the point: \<open>handleSetHoveredObject\<close>
  returns its object id (nothing when that id is missing or empty) and
  \<open>handleSetHoveredBox\<close> returns its index; when no rectangle contains the point both
  return nothing.
\<close>

theorem hover_smallest_area:
  "((\<exists>found \<in> set masks. rectContains x y found
        \<and> (\<forall>m \<in> set masks. rectContains x y m \<longrightarrow> rectArea found \<le> rectArea m)
        \<and> handleSetHoveredObject False masks x y h
            = (if truthy (objectId found) then objectId found else None))
    \<or> ((\<forall>m \<in> set masks. \<not> rectContains x y m)
        \<and> handleSetHoveredObject False masks x y h = None))
   \<and> ((\<exists>i < length boxes. rectContains x y (boxes ! i)
        \<and> (\<forall>j < length boxes. rectContains x y (boxes ! j)
              \<longrightarrow> rectArea (boxes ! i) \<le> rectArea (boxes ! j))
        \<and> handleSetHoveredBox boxes x y = Some i)
    \<or> ((\<forall>j < length boxes. \<not> rectContains x y (boxes ! j))
        \<and> handleSetHoveredBox boxes x y = None))"
  using hover_object_result [of masks x y h] hover_box_result [of boxes x y]
  by (rule conjI)

theorem hover_smallest_area_witness:
  "rectContains 30 30 bigRect \<and> rectContains 30 30 smallRect
   \<and> rectArea smallRect < rectArea bigRect
   \<and> truthy (objectId smallRect)
   \<and> handleSetHoveredObject False [bigRect, smallRect] 30 30 None = objectId smallRect"
proof -
  have c: "rectContains 30 30 bigRect" "rectContains 30 30 smallRect"
    by (simp_all add: bigRect_def smallRect_def rectContains_def fl_eval)
  have a: "rectArea smallRect < rectArea bigRect"
    by (simp add: bigRect_def smallRect_def rectArea_def fl_eval)
  have t: "truthy (objectId smallRect)"
    by (simp add: smallRect_def truthy_def)
  from hover_smallest_area [of "[bigRect, smallRect]" 30 30 None "[]"] c
  obtain found where f: "found \<in> set [bigRect, smallRect]"
    "\<forall>m \<in> set [bigRect, smallRect]. rectContains 30 30 m \<longrightarrow> rectArea found \<le> rectArea m"
    "handleSetHoveredObject False [bigRect, smallRect] 30 30 None
       = (if truthy (objectId found) then objectId found else None)"
    by auto
  from f(2) c have "rectArea found \<le> rectArea smallRect" by simp
  with f(1) a have "found = smallRect" by auto
  with f(3) t have "handleSetHoveredObject False [bigRect, smallRect] 30 30 None = objectId smallRect"
    by simp
  with c a t show ?thesis by simp
qed

subsection \<open>The human guesses\<close>

lemma wrong_click:
  assumes "gameState s = USER_GUESSING" "aiSelection s = Some sel"
    and "find (\<lambda>obj. obj_id obj = i) (objects s) = Some clicked" "i \<noteq> obj_id sel"
  shows "handleMaskClick i s = s\<lparr>attemptCount := attemptCount s + 1, message := msg_wrong (label clicked)\<rparr>"
proof -
  from assms(3) have "obj_id clicked = i" by (auto simp: find_Some_iff)
  with assms show ?thesis by (simp add: handleMaskClick_def)
qed

lemma find_id_exists:
  "(\<exists>obj \<in> set objs. obj_id obj = i) \<Longrightarrow> \<exists>clicked. find (\<lambda>obj. obj_id obj = i) objs = Some clicked \<and> obj_id clicked = i"
  by (induction objs) auto

lemma wrong_clicks:
  assumes "gameState s = USER_GUESSING" "aiSelection s = Some sel"
    and "\<forall>i \<in> set ids. i \<noteq> obj_id sel \<and> (\<exists>obj \<in> set (objects s). obj_id obj = i)"
  shows "gameState (fold handleMaskClick ids s) = USER_GUESSING
       \<and> score (fold handleMaskClick ids s) = score s
       \<and> attemptCount (fold handleMaskClick ids s) = attemptCount s + int (length ids)
       \<and> aiSelection (fold handleMaskClick ids s) = Some sel
       \<and> objects (fold handleMaskClick ids s) = objects s"
  using assms
proof (induction ids arbitrary: s)
  case Nil
  then show ?case by simp
next
  case (Cons i ids)
  from Cons.prems obtain clicked where c: "find (\<lambda>obj. obj_id obj = i) (objects s) = Some clicked"
    using find_id_exists [of "objects s" i] by auto
  from Cons.prems have ne: "i \<noteq> obj_id sel" by simp
  let ?s = "handleMaskClick i s"
  have step: "?s = s\<lparr>attemptCount := attemptCount s + 1, message := msg_wrong (label clicked)\<rparr>"
    using wrong_click [OF Cons.prems(1,2) c ne] .
  have "gameState ?s = USER_GUESSING" "aiSelection ?s = Some sel"
    using Cons.prems by (simp_all add: step)
  moreover have "\<forall>i \<in> set ids. i \<noteq> obj_id sel \<and> (\<exists>obj \<in> set (objects ?s). obj_id obj = i)"
    using Cons.prems by (simp add: step)
  ultimately have "gameState (fold handleMaskClick ids ?s) = USER_GUESSING
       \<and> score (fold handleMaskClick ids ?s) = score ?s
       \<and> attemptCount (fold handleMaskClick ids ?s) = attemptCount ?s + int (length ids)
       \<and> aiSelection (fold handleMaskClick ids ?s) = Some sel
       \<and> objects (fold handleMaskClick ids ?s) = objects ?s"
    by (rule Cons.IH)
  then show ?case by (simp add: step)
qed

lemma click_in_guessing:
  assumes "gameState s = USER_GUESSING" "aiSelection s = Some sel"
  shows "ai (score (handleMaskClick i s)) = ai (score s)"
    and "gameState (handleMaskClick i s) = (if i = obj_id sel \<and> (\<exists>obj \<in> set (objects s). obj_id obj = i) then ROUND_OVER else USER_GUESSING)"
proof -
  show "ai (score (handleMaskClick i s)) = ai (score s)"
    using assms by (auto simp: handleMaskClick_def Let_def split: option.splits)
  show "gameState (handleMaskClick i s) = (if i = obj_id sel \<and> (\<exists>obj \<in> set (objects s). obj_id obj = i) then ROUND_OVER else USER_GUESSING)"
  proof (cases "find (\<lambda>obj. obj_id obj = i) (objects s)")
    case None
    then have "\<not> (\<exists>obj \<in> set (objects s). obj_id obj = i)" by (auto simp: find_None_iff)
    with None assms show ?thesis by (simp add: handleMaskClick_def)
  next
    case (Some clicked)
    then have "obj_id clicked = i" "clicked \<in> set (objects s)"
      by (auto simp: find_Some_iff)
    with Some assms show ?thesis by (auto simp: handleMaskClick_def Let_def)
  qed
qed

text \<open>
  C9. In the human-guessing phase a click on a stored object other than the AI's pick
  leaves the phase and both scores as they are and adds one to \<open>attemptCount\<close> (the
  message names the clicked object). So after any number of wrong clicks the phase is
  still the human-guessing phase with unchanged scores: the guesser is never exhausted,
  no click changes the AI's score, and a click ends the round exactly when it hits the
  AI's pick; the reset leads to the start.
\<close>

theorem wrong_guess_keeps_guessing:
  assumes "gameState s = USER_GUESSING" and "aiSelection s = Some sel"
  shows "(find (\<lambda>obj. obj_id obj = i) (objects s) = Some clicked \<and> i \<noteq> obj_id sel
            \<longrightarrow> handleMaskClick i s
                = s\<lparr>attemptCount := attemptCount s + 1, message := msg_wrong (label clicked)\<rparr>)
       \<and> ((\<forall>j \<in> set ids. j \<noteq> obj_id sel \<and> (\<exists>obj \<in> set (objects s). obj_id obj = j))
            \<longrightarrow> gameState (fold handleMaskClick ids s) = USER_GUESSING
              \<and> score (fold handleMaskClick ids s) = score s
              \<and> attemptCount (fold handleMaskClick ids s) = attemptCount s + int (length ids))
       \<and> ai (score (handleMaskClick i s)) = ai (score s)
       \<and> gameState (handleMaskClick i s)
           = (if i = obj_id sel \<and> (\<exists>obj \<in> set (objects s). obj_id obj = i)
              then ROUND_OVER else USER_GUESSING)
       \<and> gameState (resetGame s) = START"
  using wrong_click [OF assms, of i clicked] wrong_clicks [OF assms, of ids]
    click_in_guessing [OF assms, of i]
  by (simp add: resetGame_def)

theorem wrong_guess_keeps_guessing_witness:
  "gameState guessingState = USER_GUESSING \<and> aiSelection guessingState = Some objC
   \<and> find (\<lambda>obj. obj_id obj = ''obj-1'') (objects guessingState) = Some objA
   \<and> ''obj-1'' \<noteq> obj_id objC
   \<and> handleMaskClick ''obj-1'' guessingState
       = guessingState\<lparr>attemptCount := 1, message := msg_wrong ''Ball''\<rparr>
   \<and> gameState (fold handleMaskClick [''obj-1'', ''obj-0'', ''obj-1''] guessingState) = USER_GUESSING
   \<and> score (fold handleMaskClick [''obj-1'', ''obj-0'', ''obj-1''] guessingState) = INITIAL_SCORE
   \<and> attemptCount (fold handleMaskClick [''obj-1'', ''obj-0'', ''obj-1''] guessingState) = 3
   \<and> gameState (handleMaskClick ''obj-2'' guessingState) = ROUND_OVER"
proof -
  have g: "gameState guessingState = USER_GUESSING" "aiSelection guessingState = Some objC"
    by (simp_all add: guessingState_def aiPickingState_def pickingState_def)
  have o: "objects guessingState = [objB, objA, objC]"
    by (simp add: guessingState_def aiPickingState_def pickingState_def)
  have ids: "obj_id objA = ''obj-1''" "obj_id objB = ''obj-0''" "obj_id objC = ''obj-2''"
    by (simp_all add: objA_def objB_def objC_def)
  have f: "find (\<lambda>obj. obj_id obj = ''obj-1'') (objects guessingState) = Some objA"
    by (simp add: o ids)
  have n: "''obj-1'' \<noteq> obj_id objC" by (simp add: ids)
  have a0: "attemptCount guessingState = 0" "score guessingState = INITIAL_SCORE"
    by (simp_all add: guessingState_def aiPickingState_def pickingState_def)
  have l: "label objA = ''Ball''" by (simp add: objA_def)
  have all: "\<forall>j \<in> set [''obj-1'', ''obj-0'', ''obj-1''].
      j \<noteq> obj_id objC \<and> (\<exists>obj \<in> set (objects guessingState). obj_id obj = j)"
    by (simp add: o ids)
  note t = wrong_guess_keeps_guessing [OF g, of _ objA "[''obj-1'', ''obj-0'', ''obj-1'']"]
  from t [of "''obj-1''"] f n a0 l
  have c1: "handleMaskClick ''obj-1'' guessingState
       = guessingState\<lparr>attemptCount := 1, message := msg_wrong ''Ball''\<rparr>"
    by simp
  from t [of "''obj-1''"] all a0
  have c2: "gameState (fold handleMaskClick [''obj-1'', ''obj-0'', ''obj-1''] guessingState) = USER_GUESSING"
    "score (fold handleMaskClick [''obj-1'', ''obj-0'', ''obj-1''] guessingState) = INITIAL_SCORE"
    "attemptCount (fold handleMaskClick [''obj-1'', ''obj-0'', ''obj-1''] guessingState) = 3"
    by simp_all
  from t [of "''obj-2''"]
  have c3: "gameState (handleMaskClick ''obj-2'' guessingState) = ROUND_OVER"
    by (simp add: o ids)
  from g f n c1 c2 c3 show ?thesis by simp
qed


subsection \<open>The AI guesses\<close>

lemma handleYes_fields:
  "gameState (handleYes s) = ROUND_OVER
   \<and> ai (score (handleYes s)) = ai (score s) + calculatePoints (attemptCount s)
   \<and> user (score (handleYes s)) = user (score s)
   \<and> handleYes (s\<lparr>aiGuesses := gs, userSelection := sel, objects := objs\<rparr>)
       = (handleYes s)\<lparr>aiGuesses := gs, userSelection := sel, objects := objs\<rparr>"
  by (simp add: handleYes_def Let_def)

lemma unmatched_skipped:
  assumes "aiGuesses r = g # rest" "userSelection r = Some sel"
    and "\<forall>obj \<in> set (objects r). toLowerCase (label obj) \<noteq> toLowerCase (label g)"
  shows "handleAiGuess r s
       = Inr (s\<lparr>aiGuesses := drop 1 (aiGuesses s), aiGuessesRef := Suc (aiGuessesRef s)\<rparr>)"
proof -
  from assms(3) have "find (\<lambda>obj. toLowerCase (label obj) = toLowerCase (label g)) (objects r) = None"
    by (simp add: find_None_iff)
  with assms(1,2) show ?thesis by (simp add: handleAiGuess_def)
qed

lemma matched_presented:
  assumes "aiGuesses s = g # rest" "userSelection s = Some sel"
    and "\<exists>obj \<in> set (objects s). toLowerCase (label obj) = toLowerCase (label g)"
  shows "\<exists>obj \<in> set (objects s). toLowerCase (label obj) = toLowerCase (label g)
           \<and> handleAiGuess s s
               = Inr (s\<lparr>aiGuesses := obj\<lparr>obj_id := obj_id g, color := color g\<rparr> # rest,
                       aiGuessesRef := Suc (aiGuessesRef s),
                       message := msg_is_it (label obj)\<rparr>)"
proof (cases "find (\<lambda>obj. toLowerCase (label obj) = toLowerCase (label g)) (objects s)")
  case None
  with assms(3) show ?thesis by (auto simp: find_None_iff)
next
  case (Some obj)
  then have "obj \<in> set (objects s)" "toLowerCase (label obj) = toLowerCase (label g)"
    by (auto simp: find_Some_iff)
  with Some assms(1,2) show ?thesis by (auto simp: handleAiGuess_def)
qed

text \<open>
  C10. Accepting a guess ends the round and adds \<open>calculatePoints attemptCount\<close> to the
  score of the AI, whatever candidate is presented and whatever the human picked: the
  handler reads the attempt count and the score only.
\<close>

theorem accepted_guess_awards_ai:
  "gameState (handleYes s) = ROUND_OVER
   \<and> ai (score (handleYes s)) = ai (score s) + calculatePoints (attemptCount s)
   \<and> user (score (handleYes s)) = user (score s)
   \<and> handleYes (s\<lparr>aiGuesses := gs, userSelection := sel, objects := objs\<rparr>)
       = (handleYes s)\<lparr>aiGuesses := gs, userSelection := sel, objects := objs\<rparr>"
  by (rule handleYes_fields)

lemma accepted_wrong_candidate_example:
  "map label (aiGuesses aiGuessingState) = [''Tisch'']
   \<and> map_option label (userSelection aiGuessingState) = Some ''Ball''
   \<and> yesNoShown aiGuessingState
   \<and> gameState (handleYes aiGuessingState) = ROUND_OVER
   \<and> score (handleYes aiGuessingState) = \<lparr>user = 0, ai = 10\<rparr>"
  by (simp add: aiGuessingState_def pickingState_def handleYes_def yesNoShown_def startsWith_def
      msg_is_it_def objA_def objB_def INITIAL_SCORE_def calculatePoints_def)

text \<open>
  C7. The candidate at the front of the queue is compared with the stored objects by
  lower-cased label. If some stored object matches, such an object is presented under
  the candidate's id and colour. If none matches, the candidate is removed from the
  queue and nothing else of the game changes: not the attempt count, the scores or the
  phase; only the queue is a new array. This is the outcome when the updates are applied
  to the state of the render that issued them; an unmatched candidate's update removes
  the front of the queue of whatever state it is applied to.
\<close>

theorem unmatched_candidate_skipped:
  assumes "aiGuesses s = g # rest" and "userSelection s = Some sel"
  shows "((\<exists>obj \<in> set (objects s). toLowerCase (label obj) = toLowerCase (label g))
            \<longrightarrow> (\<exists>obj \<in> set (objects s). toLowerCase (label obj) = toLowerCase (label g)
                  \<and> handleAiGuess s s
                      = Inr (s\<lparr>aiGuesses := obj\<lparr>obj_id := obj_id g, color := color g\<rparr> # rest,
                              aiGuessesRef := Suc (aiGuessesRef s),
                              message := msg_is_it (label obj)\<rparr>)))
       \<and> ((\<forall>obj \<in> set (objects s). toLowerCase (label obj) \<noteq> toLowerCase (label g))
            \<longrightarrow> handleAiGuess s s
                  = Inr (s\<lparr>aiGuesses := rest, aiGuessesRef := Suc (aiGuessesRef s)\<rparr>)
              \<and> map_sum id attemptCount (handleAiGuess s s) = Inr (attemptCount s)
              \<and> map_sum id score (handleAiGuess s s) = Inr (score s)
              \<and> map_sum id gameState (handleAiGuess s s) = Inr (gameState s)
              \<and> (\<forall>t. handleAiGuess s t
                        = Inr (t\<lparr>aiGuesses := drop 1 (aiGuesses t),
                                aiGuessesRef := Suc (aiGuessesRef t)\<rparr>)))"
  using matched_presented [OF assms] unmatched_skipped [OF assms] assms(1)
  by auto

lemma mappedGuesses_two: "mappedGuesses [(''Stuhl'', mask objC), (''BALL'', mask objA)] = 
  [\<lparr>obj_id = ''guess-0'', label = ''Stuhl'', mask = mask objC, color = ''#FFD70080''\<rparr>,
   \<lparr>obj_id = ''guess-1'', label = ''BALL'', mask = mask objA, color = ''#FFD70080''\<rparr>]"
  by (simp add: mappedGuesses_def natToString.simps upt_rec)

theorem unmatched_candidate_skipped_witness:
  "aiGuesses twoCandidatesState
     = [\<lparr>obj_id = ''guess-0'', label = ''Stuhl'', mask = mask objC, color = ''#FFD70080''\<rparr>,
        \<lparr>obj_id = ''guess-1'', label = ''BALL'', mask = mask objA, color = ''#FFD70080''\<rparr>]
   \<and> userSelection twoCandidatesState = Some objA
   \<and> handleAiGuess twoCandidatesState twoCandidatesState
       = Inr (twoCandidatesState
           \<lparr>aiGuesses := [\<lparr>obj_id = ''guess-1'', label = ''BALL'', mask = mask objA, color = ''#FFD70080''\<rparr>],
            aiGuessesRef := 1\<rparr>)
   \<and> map_sum id attemptCount (handleAiGuess twoCandidatesState twoCandidatesState) = Inr 1
   \<and> map_sum id gameState (handleAiGuess twoCandidatesState twoCandidatesState) = Inr AI_GUESSING
   \<and> map_sum id score (handleAiGuess twoCandidatesState twoCandidatesState) = Inr INITIAL_SCORE
   \<and> map_sum id aiGuesses
         (handleAiGuess
            (twoCandidatesState
               \<lparr>aiGuesses := [\<lparr>obj_id = ''guess-1'', label = ''BALL'', mask = mask objA, color = ''#FFD70080''\<rparr>],
                aiGuessesRef := 1\<rparr>)
            (twoCandidatesState
               \<lparr>aiGuesses := [\<lparr>obj_id = ''guess-1'', label = ''BALL'', mask = mask objA, color = ''#FFD70080''\<rparr>],
                aiGuessesRef := 1\<rparr>))
       = Inr [objA\<lparr>obj_id := ''guess-1'', color := ''#FFD70080''\<rparr>]"
proof -
  let ?g0 = "\<lparr>obj_id = ''guess-0'', label = ''Stuhl'', mask = mask objC, color = ''#FFD70080''\<rparr>"
  let ?g1 = "\<lparr>obj_id = ''guess-1'', label = ''BALL'', mask = mask objA, color = ''#FFD70080''\<rparr>"
  have q: "aiGuesses twoCandidatesState = [?g0, ?g1]"
    by (simp add: twoCandidatesState_def mappedGuesses_two)
  have u: "userSelection twoCandidatesState = Some objA"
    by (simp add: twoCandidatesState_def)
  have o: "objects twoCandidatesState = [objB, objA, objC]"
    by (simp add: twoCandidatesState_def pickingState_def)
  have f: "attemptCount twoCandidatesState = 1" "gameState twoCandidatesState = AI_GUESSING"
    "score twoCandidatesState = INITIAL_SCORE" "aiGuessesRef twoCandidatesState = 0"
    by (simp_all add: twoCandidatesState_def pickingState_def)
  have lc: "toLowerCase (label objA) = ''ball''" "toLowerCase (label objB) = ''tisch''"
    "toLowerCase (label objC) = ''lampe''" "toLowerCase ''Stuhl'' = ''stuhl''"
    "toLowerCase ''BALL'' = ''ball''"
    by (simp_all add: toLowerCase_def toLowerCase_unit_def objA_def objB_def objC_def)
  have none: "\<forall>obj \<in> set (objects twoCandidatesState).
      toLowerCase (label obj) \<noteq> toLowerCase (label ?g0)"
    by (simp add: o lc)
  let ?s1 = "twoCandidatesState\<lparr>aiGuesses := [?g1], aiGuessesRef := 1\<rparr>"
  from unmatched_candidate_skipped [OF q u] none
  have "handleAiGuess twoCandidatesState twoCandidatesState
      = Inr (twoCandidatesState\<lparr>aiGuesses := [?g1],
               aiGuessesRef := Suc (aiGuessesRef twoCandidatesState)\<rparr>)"
    by blast
  then have s1: "handleAiGuess twoCandidatesState twoCandidatesState = Inr ?s1"
    by (simp add: f(4))
  have q1: "aiGuesses ?s1 = [?g1]" and u1: "userSelection ?s1 = Some objA"
    by (simp_all add: u)
  have some: "\<exists>obj \<in> set (objects ?s1). toLowerCase (label obj) = toLowerCase (label ?g1)"
    by (simp add: o lc)
  from unmatched_candidate_skipped [OF q1 u1] some
  obtain obj where m: "obj \<in> set (objects ?s1)" "toLowerCase (label obj) = toLowerCase (label ?g1)"
    "handleAiGuess ?s1 ?s1 = Inr (?s1\<lparr>aiGuesses := [obj\<lparr>obj_id := obj_id ?g1, color := color ?g1\<rparr>],
        aiGuessesRef := Suc (aiGuessesRef ?s1),
        message := msg_is_it (label obj)\<rparr>)"
    by blast
  from m(1,2) have "obj = objA" by (auto simp: o lc)
  with m(3) have s2: "map_sum id aiGuesses (handleAiGuess ?s1 ?s1)
      = Inr [objA\<lparr>obj_id := ''guess-1'', color := ''#FFD70080''\<rparr>]"
    by simp
  from q u s1 s2 f show ?thesis by simp
qed

text \<open>
  Rejecting a guess adds one to the attempt count and removes the front of the queue.
  The branch of \<open>handleAiGuess\<close> for an empty queue ends the round with ten points
  for the human, as does the callback for an empty list of candidates; but the effect,
  its only caller, never calls \<open>handleAiGuess\<close> in a render whose queue is empty, and
  no update that the effect issues changes the phase, a score or the attempt count.
\<close>

lemma exhausted_branch_unreachable:
  "aiGuesses r = [] \<Longrightarrow> aiGuessingEffect r s = Inr s"
  by (simp add: aiGuessingEffect_def)

lemma exhausted_branch_awards:
  "aiGuesses r = [] \<Longrightarrow> userSelection r = Some sel \<Longrightarrow>
   handleAiGuess r s
     = Inr (s\<lparr>gameState := ROUND_OVER, message := msg_not_guessed (label sel),
             score := (score s)\<lparr>user := user (score s) + 10\<rparr>\<rparr>)"
  by (simp add: handleAiGuess_def)

lemma no_candidates_awards:
  "gameState (guessesSettled sel (Resolved []) s) = ROUND_OVER
   \<and> user (score (guessesSettled sel (Resolved []) s)) = user (score s) + 10
   \<and> ai (score (guessesSettled sel (Resolved []) s)) = ai (score s)"
  by (simp add: guessesSettled_def)

lemma rejected_guess_counts:
  "attemptCount (handleNo s) = attemptCount s + 1 \<and> aiGuesses (handleNo s) = tl (aiGuesses s)
   \<and> gameState (handleNo s) = gameState s \<and> score (handleNo s) = score s"
  by (simp add: handleNo_def drop_Suc)

lemma effect_never_ends_round:
  assumes "aiGuessingEffect r s = Inr s'"
  shows "gameState s' = gameState s \<and> score s' = score s \<and> attemptCount s' = attemptCount s"
  using assms
  by (auto simp: aiGuessingEffect_def handleAiGuess_def split: if_splits list.splits option.splits)

text \<open>
  An update of the first branch that is applied after the queue has been emptied throws.
\<close>

lemma stale_updater_throws:
  assumes "gameState r = AI_GUESSING" "aiGuesses r = g # rest" "userSelection r = Some sel"
    and "find (\<lambda>obj. toLowerCase (label obj) = toLowerCase (label g)) (objects r) = Some obj"
    and "aiGuesses s = []"
  shows "aiGuessingEffect r s = Inl TypeError"
  using assms by (simp add: aiGuessingEffect_def handleAiGuess_def)

text \<open>
  While a matched candidate is at the front of the queue, the effect stores a new array
  with a matched candidate at its front. The render that follows therefore differs in
  \<open>aiGuesses\<close> from the one before, and the effect runs again, in a state of which the
  same holds: the effect runs after every render until the human answers.
\<close>

lemma presented_candidate_refires:
  assumes "gameState s = AI_GUESSING" "aiGuesses s = g # rest" "userSelection s = Some sel"
    and "find (\<lambda>obj. toLowerCase (label obj) = toLowerCase (label g)) (objects s) = Some obj"
  shows "\<exists>s' g'. aiGuessingEffect s s = Inr s' \<and> aiGuessesRef s' \<noteq> aiGuessesRef s
           \<and> gameState s' = AI_GUESSING \<and> aiGuesses s' = g' # rest \<and> userSelection s' = Some sel
           \<and> find (\<lambda>obj. toLowerCase (label obj) = toLowerCase (label g')) (objects s') = Some obj"
proof -
  from assms(4) have l: "toLowerCase (label obj) = toLowerCase (label g)"
    by (auto simp: find_Some_iff)
  let ?g = "obj\<lparr>obj_id := obj_id g, color := color g\<rparr>"
  let ?s = "s\<lparr>aiGuesses := ?g # rest, aiGuessesRef := Suc (aiGuessesRef s),
               message := msg_is_it (label obj)\<rparr>"
  have "aiGuessingEffect s s = Inr ?s"
    using assms by (simp add: aiGuessingEffect_def handleAiGuess_def)
  moreover have "find (\<lambda>ob. toLowerCase (label ob) = toLowerCase (label ?g)) (objects ?s) = Some obj"
    using assms(4) l by simp
  ultimately show ?thesis using assms(1,3) by auto
qed

text \<open>
  C3, evaluated where the code departs from it: the AI presents its only candidate and
  the human rejects it. The rejection adds one to the attempt count and empties the
  queue, and it leaves the phase and the scores as they were. No update of the effect
  makes up for that. The effect of the render that sees the empty queue issues no
  update. The update that the effect of the render before issued throws a TypeError
  when it is applied after the rejection; applied before the rejection, it stores the
  same candidate in a new array, and the rejection then ends in the AI-guessing phase
  with an empty queue and the scores unchanged as well.
\<close>

theorem rejected_last_candidate_no_bonus:
  "aiGuesses aiGuessingState = [objB\<lparr>obj_id := ''guess-0'', color := ''#FFD70080''\<rparr>]
   \<and> gameState aiGuessingState = AI_GUESSING
   \<and> attemptCount (handleNo aiGuessingState) = attemptCount aiGuessingState + 1
   \<and> aiGuesses (handleNo aiGuessingState) = []
   \<and> gameState (handleNo aiGuessingState) = AI_GUESSING
   \<and> score (handleNo aiGuessingState) = score aiGuessingState
   \<and> aiGuessingEffect (handleNo aiGuessingState) (handleNo aiGuessingState)
       = Inr (handleNo aiGuessingState)
   \<and> aiGuessingEffect aiGuessingState (handleNo aiGuessingState) = Inl TypeError
   \<and> aiGuessingEffect aiGuessingState aiGuessingState
       = Inr (aiGuessingState\<lparr>aiGuessesRef := Suc (aiGuessesRef aiGuessingState)\<rparr>)
   \<and> aiGuesses (handleNo (aiGuessingState\<lparr>aiGuessesRef := Suc (aiGuessesRef aiGuessingState)\<rparr>))
       = []
   \<and> gameState (handleNo (aiGuessingState\<lparr>aiGuessesRef := Suc (aiGuessesRef aiGuessingState)\<rparr>))
       = AI_GUESSING
   \<and> score (handleNo (aiGuessingState\<lparr>aiGuessesRef := Suc (aiGuessesRef aiGuessingState)\<rparr>))
       = score aiGuessingState"
  by (simp add: aiGuessingState_def pickingState_def aiGuessingEffect_def handleNo_def
      handleAiGuess_def toLowerCase_def toLowerCase_unit_def objA_def objB_def objC_def)


subsection \<open>Speech errors\<close>

lemma critical_texts:
  "isCriticalSpeechError (the (recognition_onerror_de ''not-allowed''))"
  "isCriticalSpeechError (the (recognition_onerror_de ''audio-capture''))"
  "isCriticalSpeechError (the (recognition_onerror_de ''service-not-allowed''))"
  "\<not> isCriticalSpeechError (the (recognition_onerror_de ''no-speech''))"
  "\<not> isCriticalSpeechError (the (recognition_onerror_de ''network''))"
  "\<not> isCriticalSpeechError (the startListening_unsupported_de)"
  by (simp_all add: isCriticalSpeechError_def recognition_onerror_de_def startsWith_def
      startListening_unsupported_de_def)

lemma critical_codes:
  "\<not> isCriticalSpeechError ''not-allowed''"
  "\<not> isCriticalSpeechError ''no-speech''"
  by (simp_all add: isCriticalSpeechError_def startsWith_def)

lemma de_nonempty: "recognition_onerror_de code = Some e \<Longrightarrow> e \<noteq> []"
  by (auto simp: recognition_onerror_de_def split: if_splits)

lemma speechErrorEffect_text:
  assumes "e \<noteq> []"
  shows "speechErrorEffect (Some e) s
          = s\<lparr>message := e, gameState := (if isCriticalSpeechError e then ERROR else gameState s)\<rparr>"
  using assms by (simp add: speechErrorEffect_def)

text \<open>
  C4, as stated: the game enters the error phase exactly for the codes of a denied
  permission and of missing support. It does not: with the hook that stores German
  texts the codes \<open>audio-capture\<close> and \<open>service-not-allowed\<close> lead there too and
  missing support does not; with hooks/useSpeech.ts, which stores the code itself,
  a denied permission leaves the phase as it is.
\<close>

theorem speech_error_not_exactly_fatal_counterexample:
  "gameState describingState = USER_DESCRIBING
   \<and> gameState (speechErrorEffect (recognition_onerror_de ''audio-capture'') describingState) = ERROR
   \<and> gameState (speechErrorEffect (recognition_onerror_de ''service-not-allowed'') describingState) = ERROR
   \<and> gameState (speechErrorEffect startListening_unsupported_de describingState) = USER_DESCRIBING
   \<and> gameState (speechErrorEffect
         (error (recognition_onerror ''not-allowed'' \<lparr>isListening = True, error = None, recognitionRef = True\<rparr>))
         describingState) = USER_DESCRIBING"
  using critical_texts critical_codes
  by (simp add: speechErrorEffect_def describingState_def pickingState_def recognition_onerror_def
      recognition_onerror_de_def startListening_unsupported_de_def)

text \<open>
  C4, amended. The effect copies a non-empty error text into the message and enters the
  error phase exactly when the text contains one of the three phrases of
  \<open>isCriticalSpeechError\<close>, changing nothing else. With the hook that stores German
  texts these are the codes \<open>not-allowed\<close>, \<open>audio-capture\<close> and
  \<open>service-not-allowed\<close>; for \<open>no-speech\<close> and \<open>network\<close> only the message changes.
  With hooks/useSpeech.ts the code \<open>no-speech\<close> changes only the message too, and
  the hook accepts a new start of the recording.
\<close>

theorem speech_error_phase:
  "(e \<noteq> [] \<longrightarrow>
      speechErrorEffect (Some e) s
        = s\<lparr>message := e, gameState := (if isCriticalSpeechError e then ERROR else gameState s)\<rparr>)
   \<and> (\<forall>code \<in> {''not-allowed'', ''audio-capture'', ''service-not-allowed''}.
        gameState (speechErrorEffect (recognition_onerror_de code) s) = ERROR
        \<and> Some (message (speechErrorEffect (recognition_onerror_de code) s)) = recognition_onerror_de code)
   \<and> (\<forall>code \<in> {''no-speech'', ''network''}.
        speechErrorEffect (recognition_onerror_de code) s
          = s\<lparr>message := the (recognition_onerror_de code)\<rparr>)
   \<and> speechErrorEffect (error (recognition_onerror ''no-speech'' h)) s = s\<lparr>message := ''no-speech''\<rparr>
   \<and> startListening True (recognition_onerror ''no-speech'' h)
       = h\<lparr>error := None, isListening := False, recognitionRef := True\<rparr>"
proof -
  have 1: "e \<noteq> [] \<longrightarrow>
      speechErrorEffect (Some e) s
        = s\<lparr>message := e, gameState := (if isCriticalSpeechError e then ERROR else gameState s)\<rparr>"
    by (simp add: speechErrorEffect_text)
  have sp: "speechErrorEffect (recognition_onerror_de code) s
      = s\<lparr>message := the (recognition_onerror_de code),
           gameState := (if isCriticalSpeechError (the (recognition_onerror_de code)) then ERROR else gameState s)\<rparr>"
    for code
    using de_nonempty [of code] speechErrorEffect_text [of "the (recognition_onerror_de code)" s]
    by (cases "recognition_onerror_de code") (simp_all add: recognition_onerror_de_def)
  have 2: "\<forall>code \<in> {''not-allowed'', ''audio-capture'', ''service-not-allowed''}.
        gameState (speechErrorEffect (recognition_onerror_de code) s) = ERROR
        \<and> Some (message (speechErrorEffect (recognition_onerror_de code) s)) = recognition_onerror_de code"
    using critical_texts(1-3) by (auto simp: sp) (simp_all add: recognition_onerror_de_def)
  have 3: "\<forall>code \<in> {''no-speech'', ''network''}.
        speechErrorEffect (recognition_onerror_de code) s
          = s\<lparr>message := the (recognition_onerror_de code)\<rparr>"
    using critical_texts(4,5) by (auto simp: sp)
  have 4: "speechErrorEffect (error (recognition_onerror ''no-speech'' h)) s = s\<lparr>message := ''no-speech''\<rparr>"
    using critical_codes(2) by (simp add: recognition_onerror_def speechErrorEffect_def)
  have 5: "startListening True (recognition_onerror ''no-speech'' h)
       = h\<lparr>error := None, isListening := False, recognitionRef := True\<rparr>"
    by (simp add: startListening_def recognition_onerror_def)
  from 1 2 3 4 5 show ?thesis by blast
qed

theorem speech_error_phase_witness:
  "''no-speech'' \<noteq> []
   \<and> gameState describingState = USER_DESCRIBING
   \<and> speechErrorEffect (Some ''no-speech'') describingState
       = describingState\<lparr>message := ''no-speech''\<rparr>
   \<and> gameState (speechErrorEffect (recognition_onerror_de ''no-speech'') describingState)
       = USER_DESCRIBING
   \<and> message (speechErrorEffect (recognition_onerror_de ''no-speech'') describingState)
       = ''Keine Sprache erkannt. Bitte sprechen Sie deutlicher.''
   \<and> gameState (speechErrorEffect (recognition_onerror_de ''not-allowed'') describingState) = ERROR"
proof -
  have d: "gameState describingState = USER_DESCRIBING"
    by (simp add: describingState_def pickingState_def)
  note t = speech_error_phase [of _ describingState]
  have c: "\<not> isCriticalSpeechError ''no-speech''" by (rule critical_codes)
  from t [of "''no-speech''"] c d
  have a: "speechErrorEffect (Some ''no-speech'') describingState
       = describingState\<lparr>message := ''no-speech''\<rparr>"
    by simp
  from t [of "''x''"]
  have b: "speechErrorEffect (recognition_onerror_de ''no-speech'') describingState
          = describingState\<lparr>message := the (recognition_onerror_de ''no-speech'')\<rparr>"
    by blast
  from t [of "''x''"]
  have e: "gameState (speechErrorEffect (recognition_onerror_de ''not-allowed'') describingState) = ERROR"
    by blast
  from a b d e show ?thesis by (simp add: recognition_onerror_de_def)
qed


subsection \<open>The AI picks\<close>

lemma fallback_when_noUsableText:
  "noUsableText response \<Longrightarrow>
   generateDescriptionForObject_part_001 (Some obj) (Resolved response)
     = Resolved FALLBACK_DESCRIPTION"
  by (auto simp: noUsableText_def generateDescriptionForObject_part_001_def split: option.splits)

lemma part_001_rejects:
  "generateDescriptionForObject_part_001 obj Rejected = Rejected"
  "generateDescriptionForObject_part_001 None call = Rejected"
  by (simp_all add: generateDescriptionForObject_part_001_def split: option.splits)

text \<open>
  The version of part_002 resolves with the fallback phrase whenever no description is
  obtained: when the call of the model fails, when there is no selection to describe,
  when the answer or its response is missing and when reading the text throws.
\<close>

lemma part_002_never_rejects:
  "\<exists>description. generateDescriptionForObject_part_002 obj call = Resolved description"
  by (simp add: generateDescriptionForObject_part_002_def)

lemma part_002_fallback:
  "generateDescriptionForObject_part_002 obj Rejected = Resolved FALLBACK_DESCRIPTION"
  "generateDescriptionForObject_part_002 None call = Resolved FALLBACK_DESCRIPTION"
  "generateDescriptionForObject_part_002 obj (Resolved None) = Resolved FALLBACK_DESCRIPTION"
  "generateDescriptionForObject_part_002 obj (Resolved (Some \<lparr>response_of = None\<rparr>))
     = Resolved FALLBACK_DESCRIPTION"
  "generateDescriptionForObject_part_002 obj
       (Resolved (Some \<lparr>response_of = Some \<lparr>text_method = Thrown\<rparr>\<rparr>))
     = Resolved FALLBACK_DESCRIPTION"
  by (simp_all add: generateDescriptionForObject_part_002_def split: option.splits)

text \<open>
  In the AI-picking phase, with objects and an image: with the version of part_002 the
  game always goes on to the human-guessing phase, with the clue built from the
  fallback phrase when the call of the model fails; with the version of part_001 a
  failing call leads to the error phase. The selection is an object of the list, or
  \<open>undefined\<close>.
\<close>

lemma picking_with_part_002:
  assumes "gameState s = AI_PICKING" and "objects s \<noteq> []" and "truthy (image s)"
  shows "gameState (aiPickingEffect random (\<lambda>sel. generateDescriptionForObject_part_002 sel call) s)
           = USER_GUESSING"
  using assms
  by (simp add: aiPickingEffect_def descriptionSettled_def Let_def
      generateDescriptionForObject_part_002_def)

lemma failure_with_part_002:
  assumes "gameState s = AI_PICKING" and "objects s \<noteq> []" and "truthy (image s)"
  shows "\<exists>selection. (selection = None \<or> (\<exists>obj \<in> set (objects s). selection = Some obj))
           \<and> aiPickingEffect random (\<lambda>sel. generateDescriptionForObject_part_002 sel Rejected) s
               = s\<lparr>aiSelection := selection, message := msg_clue FALLBACK_DESCRIPTION,
                   gameState := USER_GUESSING, attemptCount := 0\<rparr>"
proof -
  let ?i = "nat \<lfloor>fl (random * real (length (objects s)))\<rfloor>"
  let ?sel = "if ?i < length (objects s) then Some (objects s ! ?i) else None"
  have "?sel = None \<or> (\<exists>obj \<in> set (objects s). ?sel = Some obj)"
    by auto
  moreover have "aiPickingEffect random (\<lambda>sel. generateDescriptionForObject_part_002 sel Rejected) s
      = s\<lparr>aiSelection := ?sel, message := msg_clue FALLBACK_DESCRIPTION,
          gameState := USER_GUESSING, attemptCount := 0\<rparr>"
    using assms
    by (simp add: aiPickingEffect_def descriptionSettled_def Let_def part_002_fallback)
  ultimately show ?thesis by blast
qed

lemma failure_with_part_001:
  assumes "gameState s = AI_PICKING" and "objects s \<noteq> []" and "truthy (image s)"
  shows "\<exists>selection. (selection = None \<or> (\<exists>obj \<in> set (objects s). selection = Some obj))
           \<and> aiPickingEffect random (\<lambda>sel. generateDescriptionForObject_part_001 sel Rejected) s
               = s\<lparr>aiSelection := selection, gameState := ERROR, message := msg_no_description\<rparr>"
proof -
  let ?i = "nat \<lfloor>fl (random * real (length (objects s)))\<rfloor>"
  let ?sel = "if ?i < length (objects s) then Some (objects s ! ?i) else None"
  have "?sel = None \<or> (\<exists>obj \<in> set (objects s). ?sel = Some obj)"
    by auto
  moreover have "aiPickingEffect random (\<lambda>sel. generateDescriptionForObject_part_001 sel Rejected) s
      = s\<lparr>aiSelection := ?sel, gameState := ERROR, message := msg_no_description\<rparr>"
    using assms
    by (simp add: aiPickingEffect_def descriptionSettled_def Let_def part_001_rejects)
  ultimately show ?thesis by blast
qed

text \<open>
  The rounded product decides the index: for the value 0.3333333333333333 of
  \<open>Math.random()\<close> and three objects the product is rounded to 1 and the index is 1,
  where the exact product lies below 1.
\<close>

lemma randomIndex_rounded:
  "fl (1/3) * 3 < 1" "nat \<lfloor>fl (fl (1/3) * 3)\<rfloor> = 1" "nat \<lfloor>fl (1/3) * 3\<rfloor> = 0"
  by (simp_all add: fl_eval)



subsection \<open>Repeated clicks at one point\<close>

text \<open>
  The handler alone: a click that finds no stored hit set selects the first object of
  the hits sorted by area, which has the least area among them; a click that finds the
  hit set of the same position stored selects the next index, modulo the number of hits.
\<close>

lemma isSamePosition_refl: "xs \<noteq> [] \<Longrightarrow> isSamePosition xs xs"
  by (auto simp: isSamePosition_def list_all_iff list_ex_iff)

lemma sort_key_first_least:
  fixes f :: "'a \<Rightarrow> real"
  assumes "xs \<noteq> []" "x \<in> set xs"
  shows "f (sort_key f xs ! 0) \<le> f x"
proof -
  let ?ys = "sort_key f xs"
  from assms(2) have "x \<in> set ?ys" by simp
  then obtain k where k: "k < length ?ys" "x = ?ys ! k" by (metis in_set_conv_nth)
  have "sorted (map f ?ys)" by simp
  with k have "map f ?ys ! 0 \<le> map f ?ys ! k"
    by (intro sorted_nth_mono) simp_all
  moreover have "0 < length ?ys" using assms(1) by simp
  ultimately show ?thesis using k by simp
qed

lemma handlePolygonClick_fresh:
  assumes "getObjectsAtPosition objs pos \<noteq> []" and "objectsAtLastClick v = []"
  shows "handlePolygonClick False objs pos v
       = (let hitSet = sort_key (\<lambda>obj. getPolygonArea (mask obj)) (getObjectsAtPosition objs pos)
          in (v\<lparr>objectsAtLastClick := hitSet, currentObjectIndex := 0,
                clickedObject := Some (hitSet ! 0)\<rparr>, Some (obj_id (hitSet ! 0))))"
  using assms by (simp add: handlePolygonClick_def isSamePosition_def Let_def)

lemma handlePolygonClick_cycle:
  assumes "length (getObjectsAtPosition objs pos) > 1"
    and "objectsAtLastClick v
           = sort_key (\<lambda>obj. getPolygonArea (mask obj)) (getObjectsAtPosition objs pos)"
  shows "handlePolygonClick False objs pos v
       = (let hitSet = sort_key (\<lambda>obj. getPolygonArea (mask obj)) (getObjectsAtPosition objs pos);
              nextIndex = (currentObjectIndex v + 1) mod length hitSet
          in (v\<lparr>currentObjectIndex := nextIndex, clickedObject := Some (hitSet ! nextIndex)\<rparr>,
              Some (obj_id (hitSet ! nextIndex))))"
proof -
  let ?h = "sort_key (\<lambda>obj. getPolygonArea (mask obj)) (getObjectsAtPosition objs pos)"
  have ne: "?h \<noteq> []" using assms(1) by (metis length_sort list.size(3) not_less_zero)
  have "isSamePosition ?h (objectsAtLastClick v)"
    unfolding assms(2) using ne by (rule isSamePosition_refl)
  moreover have "getObjectsAtPosition objs pos \<noteq> []" using assms(1) by auto
  ultimately show ?thesis using assms(1)
    by (simp add: handlePolygonClick_def Let_def)
qed

text \<open>The example scene: the point in the middle lies in the large and in the small square.\<close>

lemma hitA: "isPointInPolygon (1/2, 1/2) (mask objA)"
  by (simp add: objA_def isPointInPolygon_def isPointInPolygon_loop.simps edgeToggles_def
      fl_eval)
lemma hitB: "isPointInPolygon (1/2, 1/2) (mask objB)"
  by (simp add: objB_def isPointInPolygon_def isPointInPolygon_loop.simps edgeToggles_def
      fl_eval)
lemma hitC: "\<not> isPointInPolygon (1/2, 1/2) (mask objC)"
  by (simp add: objC_def isPointInPolygon_def isPointInPolygon_loop.simps edgeToggles_def
      fl_eval)

lemma areas:
  "getPolygonArea (mask objA) = 720575940379279/18014398509481984"
  "getPolygonArea (mask objB) = 1621295865853379/4503599627370496"
  by (simp_all add: objA_def objB_def getPolygonArea_def fl_eval)

text \<open>
  Rounding shows in the areas: the bounding boxes of the masks
  \<open>[[0, 0.1], [0.5, 0.1], [0.5, 0.5], [0, 0.5]]\<close> and
  \<open>[[0.2, 0.3], [0.6, 0.3], [0.6, 0.8], [0.2, 0.8]]\<close> have the same exact area, and the
  areas computed are 0.2 and the binary64 value next below it.
\<close>

lemma area_rounding_example:
  "getPolygonArea [(0, fl (1/10)), (1/2, fl (1/10)), (1/2, 1/2), (0, 1/2)] = fl (2/10)"
  "getPolygonArea [(fl (2/10), fl (3/10)), (fl (6/10), fl (3/10)), (fl (6/10), fl (8/10)),
                   (fl (2/10), fl (8/10))] = fl (2/10) - 1 / 2 ^ 55"
  by (simp_all add: getPolygonArea_def fl_eval)

lemma hits: "getObjectsAtPosition [objB, objA, objC] (1/2, 1/2) = [objB, objA]"
  by (simp add: getObjectsAtPosition_def hitA hitB hitC)

lemma sorted_hits:
  "sort_key (\<lambda>obj. getPolygonArea (mask obj)) [objB, objA] = [objA, objB]"
  by (simp add: areas)


lemma example_ids: "obj_id objA = ''obj-1''" "obj_id objB = ''obj-0''" "obj_id objC = ''obj-2''"
  by (simp_all add: objA_def objB_def objC_def)

text \<open>
  In the human-guessing phase the selected id handed to the viewer is the AI's pick and
  does not change with a wrong click, so three clicks at the point select the small
  object, the large one, and the small one again.
\<close>

lemma guessing_fields:
  "objects guessingState = [objB, objA, objC]" "gameState guessingState = USER_GUESSING"
  "userSelection guessingState = None" "aiSelection guessingState = Some objC"
  "attemptCount guessingState = 0"
  by (simp_all add: guessingState_def aiPickingState_def pickingState_def)

lemma guess_click1:
  "clickInApp (1/2, 1/2) (guessingState, initialViewer)
     = (guessingState\<lparr>attemptCount := 1, message := msg_wrong (label objA)\<rparr>,
        \<lparr>clickedObject = Some objA, objectsAtLastClick = [objA, objB], currentObjectIndex = 0\<rparr>)"
  by (simp add: clickInApp_def handlePolygonClick_def viewerDisabled_def guessing_fields hits
      sorted_hits areas isSamePosition_def initialViewer_def handleMaskClick_def example_ids
      selectedObjectId_def truthy_def selectionEffect_def)

lemma guess_click2:
  "clickInApp (1/2, 1/2)
     (guessingState\<lparr>attemptCount := 1, message := msg_wrong (label objA)\<rparr>,
      \<lparr>clickedObject = Some objA, objectsAtLastClick = [objA, objB], currentObjectIndex = 0\<rparr>)
     = (guessingState\<lparr>attemptCount := 2, message := msg_wrong (label objB)\<rparr>,
        \<lparr>clickedObject = Some objB, objectsAtLastClick = [objA, objB], currentObjectIndex = 1\<rparr>)"
  by (simp add: clickInApp_def handlePolygonClick_def viewerDisabled_def guessing_fields hits
      sorted_hits areas isSamePosition_def handleMaskClick_def example_ids
      selectedObjectId_def truthy_def selectionEffect_def)

lemma guess_click3:
  "clickInApp (1/2, 1/2)
     (guessingState\<lparr>attemptCount := 2, message := msg_wrong (label objB)\<rparr>,
      \<lparr>clickedObject = Some objB, objectsAtLastClick = [objA, objB], currentObjectIndex = 1\<rparr>)
     = (guessingState\<lparr>attemptCount := 3, message := msg_wrong (label objA)\<rparr>,
        \<lparr>clickedObject = Some objA, objectsAtLastClick = [objA, objB], currentObjectIndex = 0\<rparr>)"
  by (simp add: clickInApp_def handlePolygonClick_def viewerDisabled_def guessing_fields hits
      sorted_hits areas isSamePosition_def handleMaskClick_def example_ids
      selectedObjectId_def truthy_def selectionEffect_def)

lemma repeated_clicks_while_guessing:
  "clickedObject (snd (clickInApp (1/2, 1/2) (guessingState, initialViewer))) = Some objA
   \<and> clickedObject (snd (clickInApp (1/2, 1/2) (clickInApp (1/2, 1/2) (guessingState, initialViewer))))
       = Some objB
   \<and> clickedObject (snd (clickInApp (1/2, 1/2) (clickInApp (1/2, 1/2)
         (clickInApp (1/2, 1/2) (guessingState, initialViewer))))) = Some objA"
  unfolding guess_click1 guess_click2 guess_click3 by simp

text \<open>
  In the picking phase every click that changes the selection changes the
  \<open>selectedObjectId\<close> of the viewer, and the effect on it clears the stored hit set.
\<close>

lemma click_changing_selection_resets:
  assumes "selectedObjectId (fst (clickInApp pos (s, v))) \<noteq> selectedObjectId s"
  shows "objectsAtLastClick (snd (clickInApp pos (s, v))) = []
       \<and> currentObjectIndex (snd (clickInApp pos (s, v))) = 0"
  using assms
  by (auto simp: clickInApp_def Let_def selectionEffect_def split: prod.splits option.splits)

lemma picking_fields:
  "objects pickingState = [objB, objA, objC]" "gameState pickingState = USER_PICKING"
  "userSelection pickingState = None" "aiSelection pickingState = None"
  by (simp_all add: pickingState_def)

lemma click1:
  "clickInApp (1/2, 1/2) (pickingState, initialViewer)
     = (confirmingA, \<lparr>clickedObject = Some objA, objectsAtLastClick = [], currentObjectIndex = 0\<rparr>)"
  by (simp add: clickInApp_def handlePolygonClick_def viewerDisabled_def picking_fields hits
      sorted_hits areas isSamePosition_def initialViewer_def handleMaskClick_def example_ids
      selectedObjectId_def truthy_def selectionEffect_def confirmingA_def)

lemma confirming_fields:
  "objects confirmingA = [objB, objA, objC]" "gameState confirmingA = USER_CONFIRMING"
  "userSelection confirmingA = Some objA" "aiSelection confirmingA = None"
  by (simp_all add: confirmingA_def pickingState_def)

lemma click2:
  "clickInApp (1/2, 1/2)
     (confirmingA, \<lparr>clickedObject = Some objA, objectsAtLastClick = [], currentObjectIndex = 0\<rparr>)
     = (confirmingA, \<lparr>clickedObject = Some objA, objectsAtLastClick = [objA, objB], currentObjectIndex = 0\<rparr>)"
  by (simp add: clickInApp_def handlePolygonClick_def viewerDisabled_def confirming_fields hits
      sorted_hits areas isSamePosition_def handleMaskClick_def example_ids
      selectedObjectId_def truthy_def selectionEffect_def)
     (simp add: confirmingA_def)

lemma click3:
  "clickInApp (1/2, 1/2)
     (confirmingA, \<lparr>clickedObject = Some objA, objectsAtLastClick = [objA, objB], currentObjectIndex = 0\<rparr>)
     = (confirmingA\<lparr>userSelection := Some objB, message := msg_selected (label objB)\<rparr>,
        \<lparr>clickedObject = Some objB, objectsAtLastClick = [], currentObjectIndex = 0\<rparr>)"
  by (simp add: clickInApp_def handlePolygonClick_def viewerDisabled_def confirming_fields hits
      sorted_hits areas isSamePosition_def handleMaskClick_def example_ids
      selectedObjectId_def truthy_def selectionEffect_def)


text \<open>
  With three masks stacked at the point, the clicks of the picking phase run through
  three states for ever, and the largest of the three objects is never selected.
\<close>

lemma hitD: "isPointInPolygon (1/2, 1/2) (mask objD)"
  by (simp add: objD_def objTri_def isPointInPolygon_def isPointInPolygon_loop.simps
      edgeToggles_def fl_eval)

lemma areaD: "getPolygonArea (mask objD) = 1"
  by (simp add: objD_def objTri_def getPolygonArea_def fl_eval)

lemma stacked_hits:
  "getObjectsAtPosition [objB, objA, objD] (1/2, 1/2) = [objB, objA, objD]"
  by (simp add: getObjectsAtPosition_def hitA hitB hitD)

lemma stacked_ids: "obj_id objD = ''obj-2''"
  by (simp add: objD_def)

lemma stacked_click0: "clickInApp (1/2, 1/2) (stackedState, initialViewer) = stackedA"
  by (simp add: clickInApp_def handlePolygonClick_def viewerDisabled_def stackedState_def
      pickingState_def stacked_hits isSamePosition_def initialViewer_def handleMaskClick_def
      example_ids stacked_ids selectedObjectId_def truthy_def selectionEffect_def stackedA_def areas areaD)

lemma stacked_click1: "clickInApp (1/2, 1/2) stackedA = stackedA2"
  by (simp add: clickInApp_def handlePolygonClick_def viewerDisabled_def stackedState_def
      pickingState_def stacked_hits isSamePosition_def handleMaskClick_def
      example_ids stacked_ids selectedObjectId_def truthy_def selectionEffect_def stackedA_def
      stackedA2_def areas areaD)

lemma stacked_click2: "clickInApp (1/2, 1/2) stackedA2 = stackedB"
  by (simp add: clickInApp_def handlePolygonClick_def viewerDisabled_def stackedState_def
      pickingState_def stacked_hits isSamePosition_def handleMaskClick_def
      example_ids stacked_ids selectedObjectId_def truthy_def selectionEffect_def stackedA_def
      stackedA2_def stackedB_def areas areaD)

lemma stacked_click3: "clickInApp (1/2, 1/2) stackedB = stackedA"
  by (simp add: clickInApp_def handlePolygonClick_def viewerDisabled_def stackedState_def
      pickingState_def stacked_hits isSamePosition_def handleMaskClick_def
      example_ids stacked_ids selectedObjectId_def truthy_def selectionEffect_def stackedA_def
      stackedB_def areas areaD)

lemma stacked_orbit:
  "(clickInApp (1/2, 1/2) ^^ Suc n) (stackedState, initialViewer) \<in> {stackedA, stackedA2, stackedB}"
proof (induction n)
  case 0
  then show ?case by (simp add: stacked_click0)
next
  case (Suc n)
  then show ?case
    using stacked_click1 stacked_click2 stacked_click3
    by (auto simp del: funpow.simps simp add: funpow.simps(2) [of "Suc n"])
qed

lemma third_object_never_selected:
  "userSelection (fst ((clickInApp (1/2, 1/2) ^^ n) (stackedState, initialViewer))) \<noteq> Some objD"
proof (cases n)
  case 0
  then show ?thesis by (simp add: stackedState_def pickingState_def)
next
  case (Suc m)
  have "objD \<noteq> objA" "objD \<noteq> objB"
    by (simp_all add: objD_def objTri_def objA_def objB_def)
  with stacked_orbit [of m] Suc show ?thesis
    by (auto simp: stackedA_def stackedA2_def stackedB_def)
qed


text \<open>
  C1, evaluated where the code departs from it: the human is picking, the point lies in
  the small object A and in the large object B, and the point is clicked three times.
  The first click selects A and the effect clears the stored hit set; so the second
  click is handled as a fresh one and selects A again, and the third selects B.
\<close>

theorem repeated_clicks_while_picking:
  "gameState pickingState = USER_PICKING
   \<and> getObjectsAtPosition (objects pickingState) (1/2, 1/2) = [objB, objA]
   \<and> getPolygonArea (mask objA) < getPolygonArea (mask objB)
   \<and> userSelection (fst (clickInApp (1/2, 1/2) (pickingState, initialViewer))) = Some objA
   \<and> objectsAtLastClick (snd (clickInApp (1/2, 1/2) (pickingState, initialViewer))) = []
   \<and> userSelection (fst (clickInApp (1/2, 1/2) (clickInApp (1/2, 1/2) (pickingState, initialViewer))))
       = Some objA
   \<and> userSelection (fst (clickInApp (1/2, 1/2) (clickInApp (1/2, 1/2)
         (clickInApp (1/2, 1/2) (pickingState, initialViewer))))) = Some objB"
  unfolding click1 click2 click3 by (simp add: picking_fields hits areas confirming_fields)


end
